theory Spec2Isabelle
  imports Main "HOL-Library.Word"
begin

section \<open>Shared vocabulary\<close>

text \<open>
  Go's \<open>int64\<close> is a 64-bit word read as a signed number (\<open>sint\<close>); \<open>+\<close> and \<open>-\<close>
  wrap around as the machine's do. The \<open>int\<close> parameters of the state manager
  (\<open>cooldownSeconds\<close>, \<open>windowSeconds\<close>) are converted with \<open>int64(...)\<close> before every
  use, so they are taken as \<open>int64\<close> from the start.
\<close>

type_synonym int64 = "64 word"

text \<open>
  A Go \<open>error\<close> value. \<open>Errorf msg None\<close> is \<open>fmt.Errorf(msg)\<close>, \<open>Errorf msg (Some e)\<close> is
  \<open>fmt.Errorf(msg + ": %w", e)\<close>, which keeps the cause \<open>e\<close> reachable. \<open>OSError\<close> is an error
  of the operating system or the standard library, \<open>HTTPError\<close> the error built from a
  response whose status is not 2xx, and the two sentinels are the webhook package's.
\<close>

datatype error =
    OSError string
  | Errorf string "error option"
  | HTTPError nat string
  | ErrRateLimitExceeded
  | ErrCircuitOpen

text \<open>The cause at the bottom of a chain of \<open>%w\<close> wrappers.\<close>

fun root_cause :: "error \<Rightarrow> error" where
  "root_cause (Errorf msg (Some e)) = root_cause e"
| "root_cause e = e"

text \<open>\<open>analyzer.Status\<close> is a string type: every string is a status.\<close>

type_synonym Status = string

text \<open>
  Modelled from the spec: the constants of package \<open>analyzer\<close> are not among the
  sources. Their values are the status names of the webhook documentation
  (\<open>task_complete\<close>, \<open>review_complete\<close>, \<open>question\<close>, \<open>plan_ready\<close>); \<open>StatusUnknown\<close> is
  the constant the tests pass for a status that is none of them.
\<close>

definition StatusTaskComplete :: Status where
  "StatusTaskComplete = ''task_complete''"

definition StatusReviewComplete :: Status where
  "StatusReviewComplete = ''review_complete''"

definition StatusQuestion :: Status where
  "StatusQuestion = ''question''"

definition StatusPlanReady :: Status where
  "StatusPlanReady = ''plan_ready''"

definition StatusUnknown :: Status where
  "StatusUnknown = ''unknown''"

text \<open>
  Both managers (package \<open>state\<close> and package \<open>dedup\<close>) are the same struct: the directory
  of temporary files they work in.
\<close>

record Manager =
  tempDir :: string

text \<open>
  \<open>filepath.Join(dir, name)\<close> of Go's \<open>path/filepath\<close>, on a system whose separator is \<open>/\<close>
  and whose paths have no volume name: the elements are joined by the separator, starting
  at the first one that is not empty, and the result is cleaned by \<open>filepath.Clean\<close>.

  \<open>Clean\<close> reads the path element by element (the pieces between separators): an empty
  element and \<open>.\<close> are dropped; \<open>..\<close> removes the element before it, is dropped at the root
  of a rooted path, and is kept at the start of a path that is not rooted; the elements
  left are joined by single separators, and an empty result is \<open>.\<close>. \<open>clean_step\<close> is one
  round of its loop; \<open>out\<close> holds the elements kept so far, the last one first.
\<close>

fun split_sep :: "string \<Rightarrow> string list" where
  "split_sep [] = [[]]"
| "split_sep (c # cs) =
     (if c = CHR ''/'' then [] # split_sep cs
      else (case split_sep cs of [] \<Rightarrow> [[c]] | x # xs \<Rightarrow> (c # x) # xs))"

fun join_sep :: "string list \<Rightarrow> string" where
  "join_sep [] = []"
| "join_sep [x] = x"
| "join_sep (x # y # ys) = x @ ''/'' @ join_sep (y # ys)"

definition clean_step :: "bool \<Rightarrow> string list \<Rightarrow> string \<Rightarrow> string list" where
  "clean_step rooted out elem =
     (if elem = [] \<or> elem = ''.'' then out
      else if elem = ''..'' then
        (case out of
           [] \<Rightarrow> if rooted then [] else [''..'']
         | e # rest \<Rightarrow> if e = ''..'' then ''..'' # out else rest)
      else elem # out)"

definition Clean :: "string \<Rightarrow> string" where
  "Clean path =
     (if path = [] then ''.''
      else (let rooted = (hd path = CHR ''/'');
                out = rev (foldl (clean_step rooted) [] (split_sep path))
            in if rooted then ''/'' @ join_sep out
               else if out = [] then ''.'' else join_sep out))"

definition Join :: "string \<Rightarrow> string \<Rightarrow> string" where
  "Join dir name =
     (if dir \<noteq> [] then Clean (dir @ ''/'' @ name)
      else if name \<noteq> [] then Clean name
      else [])"



section \<open>Package state: the per-session record\<close>

record SessionState =
  SessionID :: string
  LastInteractiveTool :: string
  LastTimestamp :: int64
  LastTaskCompleteTime :: int64
  LastNotificationTime :: int64
  LastNotificationStatus :: string
  LastNotificationMessage :: string
  CWD :: string

text \<open>\<open>&SessionState{SessionID: sessionID}\<close>: every other field has Go's zero value.\<close>

definition new_SessionState :: "string \<Rightarrow> SessionState" where
  "new_SessionState sessionID =
     \<lparr>SessionID = sessionID, LastInteractiveTool = [], LastTimestamp = 0,
      LastTaskCompleteTime = 0, LastNotificationTime = 0, LastNotificationStatus = [],
      LastNotificationMessage = [], CWD = []\<rparr>"

text \<open>
  The directory of state files. A file that exists holds either the JSON of a record
  (\<open>Stored\<close>: what \<open>json.Unmarshal\<close> decodes it to, and what \<open>json.MarshalIndent\<close> wrote) or
  bytes that do not parse (\<open>Malformed\<close>). \<open>read_denied\<close> and \<open>write_denied\<close> are the paths
  on which \<open>os.ReadFile\<close> and \<open>os.WriteFile\<close> fail. \<open>platform.FileExists(path)\<close>, which is
  not among the sources, is taken to say whether \<open>files\<close> has the path.
\<close>

datatype file_data = Stored SessionState | Malformed

record disk =
  files :: "string \<rightharpoonup> file_data"
  read_denied :: "string set"
  write_denied :: "string set"

definition getStatePath :: "Manager \<Rightarrow> string \<Rightarrow> string" where
  "getStatePath m sessionID =
     Join (tempDir m) (''claude-session-state-'' @ sessionID @ ''.json'')"

text \<open>
  \<open>Load\<close> returns \<open>(nil, nil)\<close> when the file does not exist (\<open>Inr None\<close>), an error when
  it cannot be read or parsed, the record otherwise.
\<close>

definition Load :: "Manager \<Rightarrow> string \<Rightarrow> disk \<Rightarrow> error + SessionState option" where
  "Load m sessionID d =
     (let path = getStatePath m sessionID in
      case files d path of
        None \<Rightarrow> Inr None
      | Some content \<Rightarrow>
          if path \<in> read_denied d
          then Inl (Errorf ''failed to read state file'' (Some (OSError ''read'')))
          else (case content of
                  Malformed \<Rightarrow>
                    Inl (Errorf ''failed to parse state file'' (Some (OSError ''json'')))
                | Stored s \<Rightarrow> Inr (Some s)))"

text \<open>
  \<open>Save\<close> writes the whole record to the path of the record's own \<open>SessionID\<close>.
  (\<open>json.MarshalIndent\<close> cannot fail on a struct of strings and integers, so its error
  branch has no input.) The result is the error, or the directory after the write.

  The file is described by the record that \<open>json.Unmarshal\<close> decodes from it. For a record
  whose strings are valid UTF-8 that is the record written. \<open>json.MarshalIndent\<close> replaces
  every byte of a string that is not part of a valid UTF-8 sequence by U+FFFD, so a record
  with such a string reads back with the string changed in those bytes; the strings of
  the records are taken to be valid UTF-8 here.
\<close>

definition Save :: "Manager \<Rightarrow> SessionState \<Rightarrow> disk \<Rightarrow> error + disk" where
  "Save m st d =
     (let path = getStatePath m (SessionID st) in
      if path \<in> write_denied d
      then Inl (Errorf ''failed to write state file'' (Some (OSError ''write'')))
      else Inr (d\<lparr>files := (files d)(path \<mapsto> Stored st)\<rparr>))"

text \<open>
  The update operations. \<open>now\<close> is what \<open>platform.CurrentTimestamp()\<close> returns during the
  call (epoch seconds).
\<close>

definition or_new :: "string \<Rightarrow> SessionState option \<Rightarrow> SessionState" where
  "or_new sessionID r = (case r of None \<Rightarrow> new_SessionState sessionID | Some s \<Rightarrow> s)"

definition UpdateInteractiveTool ::
  "Manager \<Rightarrow> int64 \<Rightarrow> string \<Rightarrow> string \<Rightarrow> string \<Rightarrow> disk \<Rightarrow> error + disk" where
  "UpdateInteractiveTool m now sessionID toolName cwd d =
     (case Load m sessionID d of
        Inl err \<Rightarrow> Inl err
      | Inr r \<Rightarrow>
          Save m ((or_new sessionID r)
                    \<lparr>LastInteractiveTool := toolName, LastTimestamp := now, CWD := cwd\<rparr>) d)"

definition UpdateTaskComplete :: "Manager \<Rightarrow> int64 \<Rightarrow> string \<Rightarrow> disk \<Rightarrow> error + disk" where
  "UpdateTaskComplete m now sessionID d =
     (case Load m sessionID d of
        Inl err \<Rightarrow> Inl err
      | Inr r \<Rightarrow> Save m ((or_new sessionID r)\<lparr>LastTaskCompleteTime := now\<rparr>) d)"

definition UpdateLastNotification ::
  "Manager \<Rightarrow> int64 \<Rightarrow> string \<Rightarrow> Status \<Rightarrow> string \<Rightarrow> disk \<Rightarrow> error + disk" where
  "UpdateLastNotification m now sessionID status message d =
     (case Load m sessionID d of
        Inl err \<Rightarrow> Inl err
      | Inr r \<Rightarrow>
          Save m ((or_new sessionID r)
                    \<lparr>LastNotificationTime := now, LastNotificationStatus := status,
                     LastNotificationMessage := message\<rparr>) d)"

text \<open>
  \<open>UpdateState\<close>: Go's \<open>switch\<close> takes the first matching case; a question or plan-ready
  status with an empty tool name falls out of the switch to \<open>return nil\<close>.
\<close>

definition UpdateState ::
  "Manager \<Rightarrow> int64 \<Rightarrow> string \<Rightarrow> Status \<Rightarrow> string \<Rightarrow> string \<Rightarrow> disk \<Rightarrow> error + disk" where
  "UpdateState m now sessionID status toolName cwd d =
     (if status = StatusTaskComplete then UpdateTaskComplete m now sessionID d
      else if status = StatusPlanReady \<or> status = StatusQuestion then
        (if toolName \<noteq> [] then UpdateInteractiveTool m now sessionID toolName cwd d
         else Inr d)
      else Inr d)"

text \<open>
  The three queries return Go's pair \<open>(bool, error)\<close>; they do not change the directory.
\<close>

definition ShouldSuppressQuestion ::
  "Manager \<Rightarrow> int64 \<Rightarrow> string \<Rightarrow> int64 \<Rightarrow> disk \<Rightarrow> bool \<times> error option" where
  "ShouldSuppressQuestion m now sessionID cooldownSeconds d =
     (if sint cooldownSeconds \<le> 0 then (False, None)
      else case Load m sessionID d of
        Inl err \<Rightarrow> (False, Some err)
      | Inr None \<Rightarrow> (False, None)
      | Inr (Some state) \<Rightarrow>
          if LastTaskCompleteTime state = 0 then (False, None)
          else (let elapsed = now - LastTaskCompleteTime state
                in (sint elapsed < sint cooldownSeconds, None)))"

definition ShouldSuppressQuestionAfterAnyNotification ::
  "Manager \<Rightarrow> int64 \<Rightarrow> string \<Rightarrow> int64 \<Rightarrow> disk \<Rightarrow> bool \<times> error option" where
  "ShouldSuppressQuestionAfterAnyNotification m now sessionID cooldownSeconds d =
     (if sint cooldownSeconds \<le> 0 then (False, None)
      else case Load m sessionID d of
        Inl err \<Rightarrow> (False, Some err)
      | Inr None \<Rightarrow> (False, None)
      | Inr (Some state) \<Rightarrow>
          if LastNotificationTime state = 0 then (False, None)
          else (let elapsed = now - LastNotificationTime state;
                    shouldSuppress = sint elapsed < sint cooldownSeconds
                in (shouldSuppress, None)))"

subsection \<open>Strings: UTF-8, white space, lower case\<close>

text \<open>
  \<open>normalizeMessage\<close> calls \<open>strings.TrimSpace\<close>, \<open>strings.TrimRight\<close> and \<open>strings.ToLower\<close>.
  A Go string is a byte sequence (a \<open>string\<close> here: a list of 8-bit characters), which the
  three read as UTF-8: a rune is a Unicode code point, and a byte that starts no valid
  encoding is read as the rune U+FFFD of width 1.

  \<open>decode_tail b0 cs\<close> decodes the rune whose first byte is \<open>b0\<close> and whose further bytes
  are at the start of \<open>cs\<close>, as \<open>utf8.DecodeRuneInString\<close> does: it returns the rune and the
  number of bytes of \<open>cs\<close> that belong to it. The bounds are those of the decoder's table
  (no overlong forms, no surrogates, nothing above U+10FFFF).
\<close>

type_synonym rune = nat

definition RuneError :: rune where
  "RuneError = 0xFFFD"

definition cont :: "char \<Rightarrow> bool" where
  "cont c = (0x80 \<le> (of_char c :: nat) \<and> (of_char c :: nat) \<le> 0xBF)"

definition second_ok :: "nat \<Rightarrow> char \<Rightarrow> bool" where
  "second_ok b0 c =
     (let b1 = of_char c :: nat in
      if b0 = 0xE0 then 0xA0 \<le> b1 \<and> b1 \<le> 0xBF
      else if b0 = 0xED then 0x80 \<le> b1 \<and> b1 \<le> 0x9F
      else if b0 = 0xF0 then 0x90 \<le> b1 \<and> b1 \<le> 0xBF
      else if b0 = 0xF4 then 0x80 \<le> b1 \<and> b1 \<le> 0x8F
      else 0x80 \<le> b1 \<and> b1 \<le> 0xBF)"

definition low6 :: "char \<Rightarrow> nat" where
  "low6 c = of_char c mod 64"

fun decode_tail :: "nat \<Rightarrow> string \<Rightarrow> rune \<times> nat" where
  "decode_tail b0 cs =
     (if b0 < 0x80 then (b0, 0)
      else if 0xC2 \<le> b0 \<and> b0 \<le> 0xDF then
        (case cs of
           c1 # _ \<Rightarrow> if cont c1 then ((b0 mod 32) * 64 + low6 c1, 1) else (RuneError, 0)
         | _ \<Rightarrow> (RuneError, 0))
      else if 0xE0 \<le> b0 \<and> b0 \<le> 0xEF then
        (case cs of
           c1 # c2 # _ \<Rightarrow>
             if second_ok b0 c1 \<and> cont c2
             then ((b0 mod 16) * 4096 + low6 c1 * 64 + low6 c2, 2)
             else (RuneError, 0)
         | _ \<Rightarrow> (RuneError, 0))
      else if 0xF0 \<le> b0 \<and> b0 \<le> 0xF4 then
        (case cs of
           c1 # c2 # c3 # _ \<Rightarrow>
             if second_ok b0 c1 \<and> cont c2 \<and> cont c3
             then ((b0 mod 8) * 262144 + low6 c1 * 4096 + low6 c2 * 64 + low6 c3, 3)
             else (RuneError, 0)
         | _ \<Rightarrow> (RuneError, 0))
      else (RuneError, 0))"

declare decode_tail.simps [simp del]

text \<open>\<open>utf8.DecodeRuneInString\<close>: the first rune of the string and its width in bytes.\<close>

fun DecodeRuneInString :: "string \<Rightarrow> rune \<times> nat" where
  "DecodeRuneInString [] = (RuneError, 0)"
| "DecodeRuneInString (c # cs) = (case decode_tail (of_char c) cs of (r, n) \<Rightarrow> (r, Suc n))"

text \<open>
  \<open>utf8.DecodeLastRuneInString\<close>, for a string that ends in the byte \<open>c\<close>; \<open>prev\<close> holds the
  bytes before \<open>c\<close>, the nearest one first. The decoder looks back over at most three
  bytes for the nearest byte that can start a rune, decodes from there, and accepts the
  rune when it ends exactly at \<open>c\<close>; every other case is U+FFFD of width 1. The result is
  the rune and the number of bytes of \<open>prev\<close> that belong to it.
\<close>

definition RuneStart :: "char \<Rightarrow> bool" where
  "RuneStart c = (\<not> cont c)"

definition decode_last_tail :: "char \<Rightarrow> string \<Rightarrow> rune \<times> nat" where
  "decode_last_tail c prev =
     (if (of_char c :: nat) < 0x80 then (of_char c, 0)
      else (case filter (\<lambda>k. k \<le> length prev \<and> RuneStart (prev ! (k - 1))) [1, 2, 3] of
              [] \<Rightarrow> (RuneError, 0)
            | k # _ \<Rightarrow>
                (case DecodeRuneInString (rev (take k prev) @ [c]) of
                   (r, w) \<Rightarrow> if w = Suc k then (r, k) else (RuneError, 0))))"

text \<open>The runes of a string, as a \<open>for range\<close> loop over the string yields them.\<close>

fun runes_of :: "string \<Rightarrow> rune list" where
  "runes_of [] = []"
| "runes_of (c # cs) = (case decode_tail (of_char c) cs of (r, n) \<Rightarrow> r # runes_of (drop n cs))"

text \<open>
  \<open>utf8.EncodeRune\<close> (what \<open>strings.Builder.WriteRune\<close> writes): a rune that is no code
  point, or a surrogate, is written as U+FFFD.
\<close>

definition EncodeRune :: "rune \<Rightarrow> string" where
  "EncodeRune r =
     (if r \<le> 0x7F then [char_of r]
      else if r \<le> 0x7FF then [char_of (0xC0 + r div 64), char_of (0x80 + r mod 64)]
      else if r > 0x10FFFF \<or> (0xD800 \<le> r \<and> r \<le> 0xDFFF)
      then [char_of (0xEF :: nat), char_of (0xBF :: nat), char_of (0xBD :: nat)]
      else if r \<le> 0xFFFF
      then [char_of (0xE0 + r div 4096), char_of (0x80 + (r div 64) mod 64),
            char_of (0x80 + r mod 64)]
      else [char_of (0xF0 + r div 262144), char_of (0x80 + (r div 4096) mod 64),
            char_of (0x80 + (r div 64) mod 64), char_of (0x80 + r mod 64)])"

text \<open>
  \<open>strings.Map\<close> for a mapping that returns no negative rune: every rune of the string is
  replaced by the encoding of its image, an invalid byte by the encoding of the image of
  U+FFFD.
\<close>

definition Map_runes :: "(rune \<Rightarrow> rune) \<Rightarrow> string \<Rightarrow> string" where
  "Map_runes mapping s = concat (map (\<lambda>r. EncodeRune (mapping r)) (runes_of s))"

text \<open>
  \<open>unicode.IsSpace\<close>: the code points of Unicode's White_Space property. U+FFFD is not
  among them, so an invalid byte is never trimmed.
\<close>

definition IsSpace :: "rune \<Rightarrow> bool" where
  "IsSpace r =
     (r \<in> {0x09, 0x0A, 0x0B, 0x0C, 0x0D, 0x20, 0x85, 0xA0, 0x1680, 0x2028, 0x2029, 0x202F,
           0x205F, 0x3000}
      \<or> (0x2000 \<le> r \<and> r \<le> 0x200A))"

text \<open>
  \<open>strings.TrimLeftFunc\<close> and \<open>strings.TrimRightFunc\<close>: the runes are decoded from the
  front, or from the back, and dropped as long as \<open>f\<close> holds of them. \<open>trim_last\<close> works on
  the reversed string. \<open>strings.TrimSpace\<close> returns what \<open>TrimFunc(s, unicode.IsSpace)\<close>
  returns, which trims the left end and then the right end (its loops over ASCII bytes
  are a fast path to the same result).
\<close>

fun TrimLeftFunc :: "(rune \<Rightarrow> bool) \<Rightarrow> string \<Rightarrow> string" where
  "TrimLeftFunc f [] = []"
| "TrimLeftFunc f (c # cs) =
     (case decode_tail (of_char c) cs of
        (r, n) \<Rightarrow> if f r then TrimLeftFunc f (drop n cs) else c # cs)"

fun trim_last :: "(rune \<Rightarrow> bool) \<Rightarrow> string \<Rightarrow> string" where
  "trim_last f [] = []"
| "trim_last f (c # prev) =
     (case decode_last_tail c prev of
        (r, n) \<Rightarrow> if f r then trim_last f (drop n prev) else c # prev)"

definition TrimRightFunc :: "(rune \<Rightarrow> bool) \<Rightarrow> string \<Rightarrow> string" where
  "TrimRightFunc f s = rev (trim_last f (rev s))"

definition TrimSpace :: "string \<Rightarrow> string" where
  "TrimSpace s = TrimRightFunc IsSpace (TrimLeftFunc IsSpace s)"

text \<open>
  \<open>strings.TrimRight(s, cutset)\<close>: a cut set of ASCII characters is matched byte by byte,
  any other cut set rune by rune. \<open>normalizeMessage\<close> passes the cut set \<open>"."\<close>.
\<close>

definition TrimRight :: "string \<Rightarrow> string \<Rightarrow> string" where
  "TrimRight s cutset =
     (if s = [] \<or> cutset = [] then s
      else if list_all (\<lambda>c. (of_char c :: nat) < 0x80) cutset
      then rev (dropWhile (\<lambda>c. c \<in> set cutset) (rev s))
      else TrimRightFunc (\<lambda>r. r \<in> set (runes_of cutset)) s)"

text \<open>
  \<open>unicode.ToLower\<close> decides ASCII runes itself (\<open>A..Z\<close> become \<open>a..z\<close>) and looks every other
  rune up in the case tables of package \<open>unicode\<close>. The tables are data of the standard
  library; \<open>table\<close> stands for the lookup \<open>unicode.To(unicode.LowerCase, r)\<close>, and whatever
  is proved holds of every table. \<open>strings.ToLower\<close> is \<open>strings.Map(unicode.ToLower, s)\<close>
  (its loop over an all-ASCII string is a fast path to the same result).
\<close>

definition unicode_ToLower :: "(rune \<Rightarrow> rune) \<Rightarrow> rune \<Rightarrow> rune" where
  "unicode_ToLower table r =
     (if r \<le> 0x7F then (if 0x41 \<le> r \<and> r \<le> 0x5A then r + 0x20 else r) else table r)"

definition ToLower :: "(rune \<Rightarrow> rune) \<Rightarrow> string \<Rightarrow> string" where
  "ToLower table s = Map_runes (unicode_ToLower table) s"

definition normalizeMessage :: "(rune \<Rightarrow> rune) \<Rightarrow> string \<Rightarrow> string" where
  "normalizeMessage table msg = ToLower table (TrimRight (TrimSpace msg) ''.'')"

text \<open>
  What the three steps are on ASCII text, written on bytes without any decoding: white
  space is \<open>\t \n \v \f \r\<close> and the space (the table \<open>asciiSpace\<close> of package \<open>strings\<close>), and
  \<open>A..Z\<close> are the letters that have a lower case. This is the reading against which
  \<open>normalizeMessage\<close> is compared below.
\<close>

definition ascii :: "string \<Rightarrow> bool" where
  "ascii s = list_all (\<lambda>c. (of_char c :: nat) < 0x80) s"

definition asciiSpace :: "char \<Rightarrow> bool" where
  "asciiSpace c =
     (let b = of_char c :: nat in
      b = 0x09 \<or> b = 0x0A \<or> b = 0x0B \<or> b = 0x0C \<or> b = 0x0D \<or> b = 0x20)"

definition ascii_lower :: "char \<Rightarrow> char" where
  "ascii_lower c =
     (let b = of_char c :: nat in if 0x41 \<le> b \<and> b \<le> 0x5A then char_of (b + 0x20) else c)"

definition ascii_trim :: "string \<Rightarrow> string" where
  "ascii_trim s = rev (dropWhile asciiSpace (rev (dropWhile asciiSpace s)))"

definition strip_periods :: "string \<Rightarrow> string" where
  "strip_periods s = rev (dropWhile (\<lambda>c. c = CHR ''.'') (rev s))"

definition ascii_normalize :: "string \<Rightarrow> string" where
  "ascii_normalize msg = map ascii_lower (strip_periods (ascii_trim msg))"

subsection \<open>IsDuplicateMessage\<close>

text \<open>
  \<open>IsDuplicateMessage\<close>, with the case table that \<open>normalizeMessage\<close> reaches through
  \<open>strings.ToLower\<close> as its first argument.
\<close>

definition IsDuplicateMessage ::
  "(rune \<Rightarrow> rune) \<Rightarrow> Manager \<Rightarrow> int64 \<Rightarrow> string \<Rightarrow> string \<Rightarrow> int64 \<Rightarrow> disk
     \<Rightarrow> bool \<times> error option" where
  "IsDuplicateMessage table m now sessionID message windowSeconds d =
     (if sint windowSeconds \<le> 0 then (False, None)
      else case Load m sessionID d of
        Inl err \<Rightarrow> (False, Some err)
      | Inr None \<Rightarrow> (False, None)
      | Inr (Some state) \<Rightarrow>
          if LastNotificationTime state = 0 \<or> LastNotificationMessage state = []
          then (False, None)
          else (let elapsed = now - LastNotificationTime state in
                if sint windowSeconds < sint elapsed then (False, None)
                else (normalizeMessage table message
                        = normalizeMessage table (LastNotificationMessage state), None)))"

text \<open>
  A session's file holds a record filed under its own identifier. \<open>Save\<close> computes the
  path from the record's \<open>SessionID\<close>, so every file this manager writes has the property.
\<close>

definition filed_under_own_id :: "Manager \<Rightarrow> string \<Rightarrow> disk \<Rightarrow> bool" where
  "filed_under_own_id m sessionID d =
     (case Load m sessionID d of Inr (Some s) \<Rightarrow> SessionID s = sessionID | _ \<Rightarrow> True)"

text \<open>
  A stored timestamp that is neither before the epoch nor after the present. For such a
  timestamp the \<open>int64\<close> difference \<open>now - earlier\<close> does not wrap around.
\<close>

definition sane_times :: "int64 \<Rightarrow> int64 \<Rightarrow> bool" where
  "sane_times earlier now = (0 \<le> sint earlier \<and> sint earlier \<le> sint now)"

subsection \<open>Vocabulary of the frame properties\<close>

text \<open>
  The fields of a record in four groups: the identifier, the interactive-tool marker, the
  task-complete time and the last notification. \<open>rewritten m d s'\<close> is the directory \<open>d\<close>
  after the file of \<open>s'\<close> has been written with \<open>s'\<close>, and nothing else.
\<close>

definition unchanged_identity :: "SessionState \<Rightarrow> SessionState \<Rightarrow> bool" where
  "unchanged_identity s s' = (SessionID s' = SessionID s)"

definition unchanged_interactive :: "SessionState \<Rightarrow> SessionState \<Rightarrow> bool" where
  "unchanged_interactive s s' =
     (LastInteractiveTool s' = LastInteractiveTool s \<and> LastTimestamp s' = LastTimestamp s
      \<and> CWD s' = CWD s)"

definition unchanged_task_complete :: "SessionState \<Rightarrow> SessionState \<Rightarrow> bool" where
  "unchanged_task_complete s s' = (LastTaskCompleteTime s' = LastTaskCompleteTime s)"

definition unchanged_notification :: "SessionState \<Rightarrow> SessionState \<Rightarrow> bool" where
  "unchanged_notification s s' =
     (LastNotificationTime s' = LastNotificationTime s
      \<and> LastNotificationStatus s' = LastNotificationStatus s
      \<and> LastNotificationMessage s' = LastNotificationMessage s)"

definition rewritten :: "Manager \<Rightarrow> disk \<Rightarrow> SessionState \<Rightarrow> disk" where
  "rewritten m d s' = d\<lparr>files := (files d)(getStatePath m (SessionID s') \<mapsto> Stored s')\<rparr>"

subsection \<open>Concrete inputs for the state manager\<close>

definition M0 :: Manager where
  "M0 = \<lparr>tempDir = ''/tmp''\<rparr>"

definition D0 :: disk where
  "D0 = \<lparr>files = Map.empty, read_denied = {}, write_denied = {}\<rparr>"

definition D1 :: disk where
  "D1 = \<lparr>files = [''/tmp/claude-session-state-s1.json'' \<mapsto>
             Stored ((new_SessionState ''s1'')\<lparr>LastTaskCompleteTime := 1700000000\<rparr>)],
          read_denied = {}, write_denied = {}\<rparr>"

definition S1 :: SessionState where
  "S1 = (new_SessionState ''s1'')\<lparr>LastTaskCompleteTime := 1700000000\<rparr>"

definition D2 :: disk where
  "D2 = \<lparr>files = [''/tmp/claude-session-state-s1.json'' \<mapsto>
             Stored ((new_SessionState ''s1'')
               \<lparr>LastInteractiveTool := ''ExitPlanMode'', LastTimestamp := 1700000000,
                CWD := ''/proj''\<rparr>)],
          read_denied = {}, write_denied = {}\<rparr>"

definition D3 :: disk where
  "D3 = \<lparr>files = [''/tmp/claude-session-state-s1.json'' \<mapsto>
             Stored ((new_SessionState ''s1'')
               \<lparr>LastInteractiveTool := ''ExitPlanMode'', LastTimestamp := 1700000000,
                LastNotificationTime := 1700000001, LastNotificationStatus := StatusPlanReady,
                LastNotificationMessage := ''plan ready'', CWD := ''/proj''\<rparr>)],
          read_denied = {}, write_denied = {}\<rparr>"

definition S3 :: SessionState where
  "S3 = (new_SessionState ''s1'')
          \<lparr>LastInteractiveTool := ''ExitPlanMode'', LastTimestamp := 1700000000,
           LastNotificationTime := 1700000001, LastNotificationStatus := StatusPlanReady,
           LastNotificationMessage := ''plan ready'', CWD := ''/proj''\<rparr>"

definition S4 :: SessionState where
  "S4 = S1\<lparr>LastNotificationTime := 1700000005,
          LastNotificationStatus := StatusTaskComplete,
          LastNotificationMessage := ''Done..''\<rparr>"

definition D4 :: disk where
  "D4 = rewritten M0 D1 S4"

section \<open>Package dedup: lock files\<close>

text \<open>
  The functions of package \<open>platform\<close> that the dedup manager calls are not among the
  sources, and \<open>os.Remove\<close> is the standard library's. They are parameters of the model:
  a record of operations on a file system \<open>'fs\<close>, about which nothing is assumed. An
  operation that changes the file system returns the new one, so whatever another process
  does to the directory between two calls can be part of what the operation returns.
  \<^item> \<open>FileExists path\<close>: whether the file exists;
  \<^item> \<open>FileAge path\<close>: the age of the file in seconds, \<open>-1\<close> when its modification time
    cannot be read;
  \<^item> \<open>AtomicCreateFile path\<close>: create-exclusive; \<open>Inr True\<close> when this call created the
    file, \<open>Inr False\<close> when the file exists already, \<open>Inl err\<close> on any other failure;
  \<^item> \<open>Remove path\<close>: \<open>os.Remove\<close>, with its error.
\<close>

record 'fs platform =
  FileExists :: "string \<Rightarrow> 'fs \<Rightarrow> bool"
  FileAge :: "string \<Rightarrow> 'fs \<Rightarrow> int64"
  AtomicCreateFile :: "string \<Rightarrow> 'fs \<Rightarrow> (error + bool) \<times> 'fs"
  Remove :: "string \<Rightarrow> 'fs \<Rightarrow> error option \<times> 'fs"

text \<open>
  \<open>hookEvent ...string\<close> is variadic: the list of the arguments given, of which only the
  first is looked at.
\<close>

definition getLockPath :: "Manager \<Rightarrow> string \<Rightarrow> string list \<Rightarrow> string" where
  "getLockPath m sessionID hookEvent =
     (if length hookEvent > 0 \<and> hd hookEvent \<noteq> []
      then Join (tempDir m)
             (''claude-notification-'' @ sessionID @ ''-'' @ hd hookEvent @ ''.lock'')
      else Join (tempDir m) (''claude-notification-'' @ sessionID @ ''.lock''))"


definition CheckEarlyDuplicate ::
  "'fs platform \<Rightarrow> Manager \<Rightarrow> string \<Rightarrow> string list \<Rightarrow> 'fs \<Rightarrow> bool" where
  "CheckEarlyDuplicate P m sessionID hookEvent fs =
     (let lockPath = getLockPath m sessionID hookEvent in
      if \<not> FileExists P lockPath fs then False
      else (let age = FileAge P lockPath fs in
            if age = - 1 \<or> (0 \<le> sint age \<and> sint age < 2) then True else False))"

text \<open>
  \<open>AcquireLock\<close> returns Go's pair \<open>(bool, error)\<close> and the file system it leaves. The error
  of \<open>os.Remove\<close> is dropped, as the source drops it.
\<close>

definition AcquireLock ::
  "'fs platform \<Rightarrow> Manager \<Rightarrow> string \<Rightarrow> string list \<Rightarrow> 'fs
     \<Rightarrow> (bool \<times> error option) \<times> 'fs" where
  "AcquireLock P m sessionID hookEvent fs =
     (let lockPath = getLockPath m sessionID hookEvent in
      case AtomicCreateFile P lockPath fs of
        (Inl err, fs1) \<Rightarrow> ((False, Some (Errorf ''failed to create lock file'' (Some err))), fs1)
      | (Inr created, fs1) \<Rightarrow>
          if created then ((True, None), fs1)
          else (let age = FileAge P lockPath fs1 in
                if 0 \<le> sint age \<and> sint age < 2 then ((False, None), fs1)
                else (let fs2 = snd (Remove P lockPath fs1) in
                      case AtomicCreateFile P lockPath fs2 of
                        (Inl err, fs3) \<Rightarrow>
                          ((False, Some (Errorf ''failed to create lock file after cleanup''
                                           (Some err))), fs3)
                      | (Inr created', fs3) \<Rightarrow> ((created', None), fs3))))"

definition ReleaseLock ::
  "'fs platform \<Rightarrow> Manager \<Rightarrow> string \<Rightarrow> string list \<Rightarrow> 'fs \<Rightarrow> error option \<times> 'fs" where
  "ReleaseLock P m sessionID hookEvent fs =
     (let lockPath = getLockPath m sessionID hookEvent in
      if FileExists P lockPath fs then Remove P lockPath fs else (None, fs))"

text \<open>
  The path of the content lock, the expression \<open>AcquireContentLock\<close> and
  \<open>ReleaseContentLock\<close> both spell out.
\<close>

definition contentLockPath :: "Manager \<Rightarrow> string \<Rightarrow> string" where
  "contentLockPath m sessionID =
     Join (tempDir m) (''claude-notification-'' @ sessionID @ ''-content.lock'')"


definition ReleaseContentLock ::
  "'fs platform \<Rightarrow> Manager \<Rightarrow> string \<Rightarrow> 'fs \<Rightarrow> error option \<times> 'fs" where
  "ReleaseContentLock P m sessionID fs =
     (let lockPath = contentLockPath m sessionID in
      if FileExists P lockPath fs then Remove P lockPath fs else (None, fs))"

subsection \<open>A lock directory in memory\<close>

text \<open>
  Modelled from the spec: package \<open>platform\<close> is not among the sources. One file system
  the parameters can be: a lock file is a zero-byte marker with a creation time, its age
  is the time since then, and create-exclusive fails without an error when the file
  exists. \<open>mtime\<close> is \<open>None\<close> for a file whose modification time cannot be read;
  \<open>create_denied\<close> are the paths whose creation the operating system refuses.
\<close>

record lockdir =
  locks :: "string \<rightharpoonup> int64 option"
  clock :: int64
  create_denied :: "string set"

definition mem_FileExists :: "string \<Rightarrow> lockdir \<Rightarrow> bool" where
  "mem_FileExists path fs = (locks fs path \<noteq> None)"

definition mem_FileAge :: "string \<Rightarrow> lockdir \<Rightarrow> int64" where
  "mem_FileAge path fs =
     (case locks fs path of Some (Some mtime) \<Rightarrow> clock fs - mtime | _ \<Rightarrow> - 1)"

definition mem_AtomicCreateFile :: "string \<Rightarrow> lockdir \<Rightarrow> (error + bool) \<times> lockdir" where
  "mem_AtomicCreateFile path fs =
     (if locks fs path \<noteq> None then (Inr False, fs)
      else if path \<in> create_denied fs then (Inl (OSError ''permission denied''), fs)
      else (Inr True, fs\<lparr>locks := (locks fs)(path \<mapsto> Some (clock fs))\<rparr>))"

definition mem_Remove :: "string \<Rightarrow> lockdir \<Rightarrow> error option \<times> lockdir" where
  "mem_Remove path fs =
     (if locks fs path = None then (Some (OSError ''no such file''), fs)
      else (None, fs\<lparr>locks := (locks fs)(path := None)\<rparr>))"

definition mem_platform :: "lockdir platform" where
  "mem_platform =
     \<lparr>FileExists = mem_FileExists, FileAge = mem_FileAge,
      AtomicCreateFile = mem_AtomicCreateFile, Remove = mem_Remove\<rparr>"

text \<open>The directory at time \<open>now\<close> holding the locks \<open>ls\<close> (path and creation time).\<close>

definition lockdir_of :: "(string \<times> int64 option) list \<Rightarrow> int64 \<Rightarrow> string set \<Rightarrow> lockdir" where
  "lockdir_of ls now denied = \<lparr>locks = map_of ls, clock = now, create_denied = denied\<rparr>"

subsection \<open>Concrete inputs for the dedup manager\<close>

definition stop_lock :: string where
  "stop_lock = ''/tmp/claude-notification-s1-Stop.lock''"


text \<open>
  Modelled from the spec: the lock directory in memory, in which the lock of session \<open>s1\<close>
  for \<open>Stop\<close> is 10 seconds old, and the platform in memory with an \<open>os.Remove\<close> that
  fails and leaves the file where it is (the process may not delete in the directory,
  say).
\<close>

definition stale_dir :: lockdir where
  "stale_dir = lockdir_of [(stop_lock, Some 90)] 100 {}"

definition sticky_platform :: "lockdir platform" where
  "sticky_platform =
     mem_platform\<lparr>Remove := \<lambda>path fs. (Some (OSError ''operation not permitted''), fs)\<rparr>"

section \<open>Package webhook: the sender\<close>

text \<open>
  Modelled from the spec: the circuit breaker, the rate limiter, the retryer and the
  metrics are not among the sources. The breaker's states are the three the spec names
  (the source mentions \<open>StateOpen\<close>). The metrics object is the sequence of the calls made
  on it, oldest first, so that what a \<open>Send\<close> records is what it appends.
\<close>

datatype CircuitState = StateClosed | StateOpen | StateHalfOpen

datatype metric_call =
    RecordRateLimited
  | RecordCircuitOpen
  | RecordRequest
  | RecordFailure
  | RecordSuccess Status int
  | UpdateCircuitBreakerState CircuitState

text \<open>The two fields of Go's \<open>url.URL\<close> that \<open>validateURL\<close> reads.\<close>

record url_URL =
  Scheme :: string
  Host :: string

text \<open>A value handed to \<open>json.Marshal\<close>.\<close>

datatype json =
    JString string
  | JInt int
  | JBool bool
  | JArray "json list"
  | JObject "(string \<times> json) list"

record StatusInfo =
  Title :: string

text \<open>
  The webhook part of the configuration. \<open>Enabled\<close> is what \<open>cfg.IsWebhookEnabled()\<close>
  returns and \<open>GetStatusInfo\<close> what the method of that name returns first.
\<close>

record Config =
  Enabled :: bool
  Preset :: string
  WebhookURL :: string
  Format :: string
  Headers :: "(string \<times> string) list"
  GetStatusInfo :: "Status \<Rightarrow> StatusInfo"

type_synonym Formatter = "Status \<Rightarrow> string \<Rightarrow> string \<Rightarrow> StatusInfo \<Rightarrow> error + json"

record http_request =
  req_url :: string
  req_body :: string
  req_headers :: "(string \<times> string) list"

datatype http_reply = TransportError error | Response nat string

text \<open>
  What the sender calls and the sources do not define, as parameters: the limiter \<open>'rl\<close>
  and the breaker \<open>'cb\<close> with their methods, the retryer's \<open>Do\<close>, the HTTP client's \<open>Do\<close>,
  the clock, and the standard library's \<open>url.Parse\<close> and \<open>json.Marshal\<close>. \<open>'w\<close> is the
  world outside the process (the network and the clock): an operation that acts on it
  returns the new world. Nothing is assumed about any of them.
\<close>

record ('rl, 'cb, 'w) env =
  Allow :: "'rl \<Rightarrow> bool \<times> 'rl"
  GetState :: "'cb \<Rightarrow> CircuitState"
  Execute :: "'cb \<Rightarrow> ('w \<Rightarrow> error option \<times> 'w) \<Rightarrow> 'w \<Rightarrow> error option \<times> 'cb \<times> 'w"
  Do :: "('w \<Rightarrow> error option \<times> 'w) \<Rightarrow> 'w \<Rightarrow> error option \<times> 'w"
  client_Do :: "http_request \<Rightarrow> 'w \<Rightarrow> http_reply \<times> 'w"
  time_Now :: "'w \<Rightarrow> int"
  time_RFC3339 :: "int \<Rightarrow> string"
  url_Parse :: "string \<Rightarrow> error + url_URL"
  json_Marshal :: "json \<Rightarrow> error + string"

text \<open>
  The \<open>Sender\<close> struct: the fields whose state a \<open>Send\<close> reads or changes. (The HTTP
  client and the retryer are fixed when the sender is built; their behaviour is the
  environment's \<open>client_Do\<close> and \<open>Do\<close>.)
\<close>

record ('rl, 'cb) Sender =
  cfg :: Config
  circuitBreaker :: "'cb option"
  rateLimiter :: "'rl option"
  metrics :: "metric_call list"
  formatters :: "string \<rightharpoonup> Formatter"

definition validateURL :: "(string \<Rightarrow> error + url_URL) \<Rightarrow> string \<Rightarrow> error option" where
  "validateURL parse rawURL =
     (if rawURL = [] then Some (Errorf ''URL is empty'' None)
      else case parse rawURL of
        Inl err \<Rightarrow> Some (Errorf ''invalid URL'' (Some err))
      | Inr parsedURL \<Rightarrow>
          if Scheme parsedURL \<noteq> ''http'' \<and> Scheme parsedURL \<noteq> ''https''
          then Some (Errorf ''URL must use http or https scheme'' None)
          else if Host parsedURL = [] then Some (Errorf ''URL must have a host'' None)
          else None)"

definition buildCustomPayload ::
  "('rl, 'cb, 'w) env \<Rightarrow> Status \<Rightarrow> string \<Rightarrow> string \<Rightarrow> string \<Rightarrow> StatusInfo \<Rightarrow> 'w
     \<Rightarrow> error + string \<times> string" where
  "buildCustomPayload E status message sessionID format statusInfo w =
     (if format = ''text''
      then Inr (''['' @ status @ ''] '' @ message, ''text/plain'')
      else (case json_Marshal E (JObject
                [(''status'', JString status),
                 (''message'', JString message),
                 (''timestamp'', JString (time_RFC3339 E (time_Now E w))),
                 (''session_id'', JString sessionID),
                 (''source'', JString ''claude-notifications''),
                 (''title'', JString (Title statusInfo))]) of
              Inl err \<Rightarrow> Inl err
            | Inr data \<Rightarrow> Inr (data, ''application/json'')))"

definition buildPayload ::
  "('rl, 'cb, 'w) env \<Rightarrow> ('rl, 'cb) Sender \<Rightarrow> Status \<Rightarrow> string \<Rightarrow> string \<Rightarrow> 'w
     \<Rightarrow> error + string \<times> string" where
  "buildPayload E s status message sessionID w =
     (let statusInfo = GetStatusInfo (cfg s) status in
      case formatters s (Preset (cfg s)) of
        Some formatter \<Rightarrow>
          (case formatter status message sessionID statusInfo of
             Inl err \<Rightarrow> Inl err
           | Inr payload \<Rightarrow>
               (case json_Marshal E payload of
                  Inl err \<Rightarrow> Inl err
                | Inr data \<Rightarrow> Inr (data, ''application/json'')))
      | None \<Rightarrow>
          buildCustomPayload E status message sessionID (Format (cfg s)) statusInfo w)"

text \<open>
  \<open>req.Header.Set\<close>: the key is put in its canonical form and the value replaces any value
  the key had. \<open>textproto.CanonicalMIMEHeaderKey\<close> leaves a key with a byte that is no
  token character as it is; in any other key the first letter and every letter after a
  hyphen become upper case, the other letters lower case.
\<close>

definition validHeaderFieldByte :: "char \<Rightarrow> bool" where
  "validHeaderFieldByte c =
     (let b = of_char c :: nat in
      (0x30 \<le> b \<and> b \<le> 0x39) \<or> (0x41 \<le> b \<and> b \<le> 0x5A) \<or> (0x61 \<le> b \<and> b \<le> 0x7A)
      \<or> b \<in> {0x21, 0x23, 0x24, 0x25, 0x26, 0x27, 0x2A, 0x2B, 0x2D, 0x2E, 0x5E, 0x5F, 0x60,
              0x7C, 0x7E})"

fun canon_bytes :: "bool \<Rightarrow> string \<Rightarrow> string" where
  "canon_bytes upper [] = []"
| "canon_bytes upper (c # cs) =
     (let b = of_char c :: nat;
          c' = (if upper \<and> 0x61 \<le> b \<and> b \<le> 0x7A then char_of (b - 0x20)
                else if \<not> upper \<and> 0x41 \<le> b \<and> b \<le> 0x5A then char_of (b + 0x20)
                else c)
      in c' # canon_bytes (c' = CHR ''-'') cs)"

definition CanonicalMIMEHeaderKey :: "string \<Rightarrow> string" where
  "CanonicalMIMEHeaderKey s = (if list_all validHeaderFieldByte s then canon_bytes True s else s)"

definition Header_Set :: "string \<Rightarrow> string \<Rightarrow> (string \<times> string) list \<Rightarrow> (string \<times> string) list" where
  "Header_Set key v hs =
     (let k = CanonicalMIMEHeaderKey key in filter (\<lambda>kv. fst kv \<noteq> k) hs @ [(k, v)])"

text \<open>
  \<open>sendHTTPRequest\<close>. \<open>http.NewRequestWithContext\<close> fails when the URL does not parse
  (the method is the constant \<open>POST\<close> and the context is not nil). The body of the
  response is read up to 1 MiB.
\<close>

definition sendHTTPRequest ::
  "('rl, 'cb, 'w) env \<Rightarrow> string \<Rightarrow> string \<Rightarrow> string \<Rightarrow> string \<Rightarrow> (string \<times> string) list
     \<Rightarrow> 'w \<Rightarrow> error option \<times> 'w" where
  "sendHTTPRequest E requestID url payload contentType headers w =
     (case url_Parse E url of
        Inl err \<Rightarrow> (Some (Errorf ''failed to create request'' (Some err)), w)
      | Inr _ \<Rightarrow>
          (let hs = fold (\<lambda>kv. Header_Set (fst kv) (snd kv)) headers
                      (Header_Set ''X-Request-ID'' requestID
                        (Header_Set ''User-Agent'' ''claude-notifications/1.0''
                          (Header_Set ''Content-Type'' contentType [])));
               req = \<lparr>req_url = url, req_body = payload, req_headers = hs\<rparr>
           in case client_Do E req w of
                (TransportError err, w') \<Rightarrow>
                  (Some (Errorf ''HTTP request failed'' (Some err)), w')
              | (Response code body, w') \<Rightarrow>
                  if code < 200 \<or> code \<ge> 300
                  then (Some (HTTPError code (take (1024 * 1024) body)), w')
                  else (None, w')))"

text \<open>
  \<open>sendWithRetryAndCircuitBreaker\<close> returns the error, the breaker as \<open>Execute\<close> leaves
  it, and the world.
\<close>

definition sendWithRetryAndCircuitBreaker ::
  "('rl, 'cb, 'w) env \<Rightarrow> ('rl, 'cb) Sender \<Rightarrow> string \<Rightarrow> Status \<Rightarrow> string \<Rightarrow> string \<Rightarrow> 'w
     \<Rightarrow> error option \<times> 'cb option \<times> 'w" where
  "sendWithRetryAndCircuitBreaker E s requestID status message sessionID w =
     (case buildPayload E s status message sessionID w of
        Inl err \<Rightarrow> (Some (Errorf ''failed to build payload'' (Some err)), circuitBreaker s, w)
      | Inr (payload, contentType) \<Rightarrow>
          (case validateURL (url_Parse E) (WebhookURL (cfg s)) of
             Some err \<Rightarrow>
               (Some (Errorf ''invalid webhook URL'' (Some err)), circuitBreaker s, w)
           | None \<Rightarrow>
               (let sendFn = sendHTTPRequest E requestID (WebhookURL (cfg s)) payload
                               contentType (Headers (cfg s))
                in case circuitBreaker s of
                     Some cb \<Rightarrow>
                       (case Execute E cb (Do E sendFn) w of
                          (executeErr, cb', w') \<Rightarrow> (executeErr, Some cb', w'))
                   | None \<Rightarrow>
                       (case Do E sendFn w of
                          (executeErr, w') \<Rightarrow> (executeErr, None, w')))))"

text \<open>
  The two admission checks of \<open>Send\<close>. \<open>s.rateLimiter != nil && !s.rateLimiter.Allow()\<close>
  calls \<open>Allow\<close> only on a limiter that is there; the call changes the limiter whatever it
  answers.
\<close>

definition limiter_rejects :: "('rl, 'cb, 'w) env \<Rightarrow> ('rl, 'cb) Sender \<Rightarrow> bool" where
  "limiter_rejects E s =
     (case rateLimiter s of None \<Rightarrow> False | Some rl \<Rightarrow> \<not> fst (Allow E rl))"

definition after_limiter :: "('rl, 'cb, 'w) env \<Rightarrow> ('rl, 'cb) Sender \<Rightarrow> ('rl, 'cb) Sender" where
  "after_limiter E s =
     (case rateLimiter s of
        None \<Rightarrow> s
      | Some rl \<Rightarrow> s\<lparr>rateLimiter := Some (snd (Allow E rl))\<rparr>)"

definition breaker_open :: "('rl, 'cb, 'w) env \<Rightarrow> ('rl, 'cb) Sender \<Rightarrow> bool" where
  "breaker_open E s =
     (case circuitBreaker s of None \<Rightarrow> False | Some cb \<Rightarrow> GetState E cb = StateOpen)"

definition record_call :: "metric_call \<Rightarrow> ('rl, 'cb) Sender \<Rightarrow> ('rl, 'cb) Sender" where
  "record_call c s = s\<lparr>metrics := metrics s @ [c]\<rparr>"

text \<open>
  \<open>Send\<close> returns the error (\<open>None\<close> is nil), the sender and the world after the call.
  \<open>requestID\<close> is the string \<open>uuid.New()\<close> yields for this call.
\<close>

definition Send ::
  "('rl, 'cb, 'w) env \<Rightarrow> ('rl, 'cb) Sender \<Rightarrow> string \<Rightarrow> Status \<Rightarrow> string \<Rightarrow> string \<Rightarrow> 'w
     \<Rightarrow> error option \<times> ('rl, 'cb) Sender \<times> 'w" where
  "Send E s requestID status message sessionID w =
     (if \<not> Enabled (cfg s) then (None, s, w)
      else if limiter_rejects E s
      then (Some ErrRateLimitExceeded, record_call RecordRateLimited (after_limiter E s), w)
      else if breaker_open E (after_limiter E s)
      then (Some ErrCircuitOpen, record_call RecordCircuitOpen (after_limiter E s), w)
      else
        (let s1 = record_call RecordRequest (after_limiter E s);
             start = time_Now E w
         in case sendWithRetryAndCircuitBreaker E s1 requestID status message sessionID w of
              (err, cb', w') \<Rightarrow>
                (let latency = time_Now E w' - start;
                     s2 = s1\<lparr>circuitBreaker := cb'\<rparr>;
                     s3 = (case err of
                             Some _ \<Rightarrow> record_call RecordFailure s2
                           | None \<Rightarrow> record_call (RecordSuccess status latency) s2);
                     s4 = (case circuitBreaker s3 of
                             Some cb \<Rightarrow> record_call (UpdateCircuitBreakerState (GetState E cb)) s3
                           | None \<Rightarrow> s3)
                 in (err, s4, w'))))"

text \<open>How often a call was made on the metrics.\<close>

definition recorded :: "metric_call \<Rightarrow> ('rl, 'cb) Sender \<Rightarrow> nat" where
  "recorded c s = count_list (metrics s) c"

subsection \<open>Concrete inputs for the sender\<close>

text \<open>
  One environment the parameters can be. The limiter is its number of tokens, the breaker
  its state, the world the list of the requests sent so far; the retryer runs the
  operation once and the server answers 200. \<open>demo_Parse\<close> is \<open>url.Parse\<close> on the URLs
  used below.
\<close>

definition demo_Parse :: "string \<Rightarrow> error + url_URL" where
  "demo_Parse raw =
     (if raw = ''https://example.com/hook''
      then Inr \<lparr>Scheme = ''https'', Host = ''example.com''\<rparr>
      else if raw = ''ftp://example.com/hook''
      then Inr \<lparr>Scheme = ''ftp'', Host = ''example.com''\<rparr>
      else if raw = ''https:///hook'' then Inr \<lparr>Scheme = ''https'', Host = []\<rparr>
      else if raw = '':bad'' then Inl (OSError ''missing protocol scheme'')
      else Inr \<lparr>Scheme = [], Host = []\<rparr>)"

definition E0 :: "(nat, CircuitState, http_request list) env" where
  "E0 =
     \<lparr>Allow = (\<lambda>n. (0 < n, n - 1)),
      GetState = (\<lambda>c. c),
      Execute = (\<lambda>cb operation w.
        if cb = StateOpen then (Some ErrCircuitOpen, cb, w)
        else (case operation w of (e, w') \<Rightarrow> (e, cb, w'))),
      Do = (\<lambda>operation w. operation w),
      client_Do = (\<lambda>req w. (Response 200 ''ok'', w @ [req])),
      time_Now = (\<lambda>w. int (length w)),
      time_RFC3339 = (\<lambda>t. ''2026-01-01T00:00:00Z''),
      url_Parse = demo_Parse,
      json_Marshal = (\<lambda>j. Inr ''{}'')\<rparr>"

definition C0 :: Config where
  "C0 = \<lparr>Enabled = True, Preset = [], WebhookURL = ''https://example.com/hook'',
          Format = ''text'', Headers = [], GetStatusInfo = (\<lambda>st. \<lparr>Title = st\<rparr>)\<rparr>"

definition sender_of ::
  "Config \<Rightarrow> CircuitState option \<Rightarrow> nat option \<Rightarrow> (nat, CircuitState) Sender" where
  "sender_of c cb rl =
     \<lparr>cfg = c, circuitBreaker = cb, rateLimiter = rl, metrics = [],
      formatters = Map.empty\<rparr>"

section \<open>Properties of the state manager\<close>

subsection \<open>Paths\<close>


















lemmas path_eval = Join_def Clean_def clean_step_def


lemma Status_distinct:
  "StatusTaskComplete \<noteq> StatusPlanReady" "StatusTaskComplete \<noteq> StatusQuestion"
  "StatusPlanReady \<noteq> StatusQuestion"
  by (simp_all add: StatusTaskComplete_def StatusPlanReady_def StatusQuestion_def)

lemma Load_cases:
  "Load m sid d =
     (case files d (getStatePath m sid) of
        None \<Rightarrow> Inr None
      | Some c \<Rightarrow>
          if getStatePath m sid \<in> read_denied d
          then Inl (Errorf ''failed to read state file'' (Some (OSError ''read'')))
          else (case c of
                  Malformed \<Rightarrow>
                    Inl (Errorf ''failed to parse state file'' (Some (OSError ''json'')))
                | Stored s \<Rightarrow> Inr (Some s)))"
  by (simp add: Load_def Let_def)

lemma Load_Some_iff:
  "Load m sid d = Inr (Some s) \<longleftrightarrow>
     files d (getStatePath m sid) = Some (Stored s) \<and> getStatePath m sid \<notin> read_denied d"
  by (auto simp: Load_cases split: option.splits file_data.splits)

lemma Save_Inr_iff:
  "Save m st d = Inr d' \<longleftrightarrow>
     getStatePath m (SessionID st) \<notin> write_denied d \<and>
     d' = d\<lparr>files := (files d)(getStatePath m (SessionID st) \<mapsto> Stored st)\<rparr>"
  by (auto simp: Save_def Let_def)

lemma Load_after_Save:
  assumes "Save m st d = Inr d'" "getStatePath m (SessionID st) \<notin> read_denied d"
  shows "Load m (SessionID st) d' = Inr (Some st)"
  using assms by (auto simp: Save_Inr_iff Load_Some_iff)

lemma or_new_SessionID:
  "filed_under_own_id m sid d \<Longrightarrow> Load m sid d = Inr r \<Longrightarrow> SessionID (or_new sid r) = sid"
  by (cases r) (simp_all add: filed_under_own_id_def or_new_def new_SessionState_def)

text \<open>
  Without wrap-around the machine difference is the difference of the numbers: for
  timestamps \<open>0 \<le> last \<le> now\<close> the elapsed time the code computes is \<open>now - last\<close>.
\<close>

lemma elapsed_no_wrap:
  fixes now last :: int64
  assumes "0 \<le> sint last" "sint last \<le> sint now"
  shows "sint (now - last) = sint now - sint last"
proof -
  have "sint now < 2 ^ 63" "- (2 ^ 63) \<le> sint last"
    using sint_lt [of now] sint_ge [of last] by simp_all
  with assms have "- (2 ^ 63) \<le> sint now - sint last" "sint now - sint last < 2 ^ 63"
    by simp_all
  then show ?thesis
    by (simp add: sint_word_ariths signed_take_bit_int_eq_self)
qed

lemma elapsed_sane: "sane_times earlier now \<Longrightarrow> sint (now - earlier) = sint now - sint earlier"
  by (simp add: sane_times_def elapsed_no_wrap)

lemma D0_filed: "filed_under_own_id M0 ''s1'' D0"
  by (simp add: filed_under_own_id_def Load_def M0_def D0_def getStatePath_def path_eval)

lemma D0_readable: "getStatePath M0 ''s1'' \<notin> read_denied D0"
  by (simp add: D0_def)

lemma D0_UpdateTaskComplete: "UpdateTaskComplete M0 1700000000 ''s1'' D0 = Inr D1"
  by (simp add: UpdateTaskComplete_def Load_def Save_def M0_def D0_def D1_def
      getStatePath_def path_eval or_new_def new_SessionState_def)

lemma D1_Load: "Load M0 ''s1'' D1 = Inr (Some S1)"
  by (simp add: Load_def M0_def D1_def S1_def getStatePath_def path_eval)

lemma D1_filed: "filed_under_own_id M0 ''s1'' D1"
  by (simp add: filed_under_own_id_def D1_Load) (simp add: S1_def new_SessionState_def)

lemma D1_readable: "getStatePath M0 ''s1'' \<notin> read_denied D1"
  by (simp add: D1_def)

lemma D3_Load: "Load M0 ''s1'' D3 = Inr (Some S3)"
  by (simp add: Load_def M0_def D3_def S3_def getStatePath_def path_eval)

lemma D4_Load: "Load M0 ''s1'' D4 = Inr (Some S4)"
  by (simp add: Load_def M0_def D1_def D4_def S4_def rewritten_def S1_def
      new_SessionState_def getStatePath_def path_eval)

lemma S1_sane: "sane_times (LastTaskCompleteTime S1) 1700000003"
  by (simp add: S1_def sane_times_def)

lemma S3_sane: "sane_times (LastNotificationTime S3) 1700000031"
  by (simp add: S3_def sane_times_def)

lemma S4_sane: "sane_times (LastNotificationTime S4) 1700000185"
  by (simp add: S4_def sane_times_def)

subsection \<open>UpdateState\<close>

text \<open>
  C8. \<open>UpdateState\<close> dispatches on the status: task-complete is \<open>UpdateTaskComplete\<close>;
  plan-ready or question with a non-empty tool name is \<open>UpdateInteractiveTool\<close>; plan-ready
  or question with an empty tool name, and every status that is none of the three, change
  nothing and return nil.
\<close>

theorem UpdateState_dispatch:
  "UpdateState m now sessionID StatusTaskComplete toolName cwd d
     = UpdateTaskComplete m now sessionID d
   \<and> (toolName \<noteq> [] \<longrightarrow>
        UpdateState m now sessionID StatusPlanReady toolName cwd d
          = UpdateInteractiveTool m now sessionID toolName cwd d
      \<and> UpdateState m now sessionID StatusQuestion toolName cwd d
          = UpdateInteractiveTool m now sessionID toolName cwd d)
   \<and> UpdateState m now sessionID StatusPlanReady [] cwd d = Inr d
   \<and> UpdateState m now sessionID StatusQuestion [] cwd d = Inr d
   \<and> (status \<noteq> StatusTaskComplete \<and> status \<noteq> StatusPlanReady \<and> status \<noteq> StatusQuestion \<longrightarrow>
        UpdateState m now sessionID status toolName cwd d = Inr d)"
  by (simp add: UpdateState_def Status_distinct Status_distinct [symmetric])

theorem UpdateState_dispatch_witness:
  "''ExitPlanMode'' \<noteq> []
   \<and> UpdateState M0 1700000000 ''s1'' StatusPlanReady ''ExitPlanMode'' ''/proj'' D0
       = UpdateInteractiveTool M0 1700000000 ''s1'' ''ExitPlanMode'' ''/proj'' D0
   \<and> UpdateState M0 1700000000 ''s1'' StatusQuestion ''ExitPlanMode'' ''/proj'' D0
       = UpdateInteractiveTool M0 1700000000 ''s1'' ''ExitPlanMode'' ''/proj'' D0
   \<and> StatusUnknown \<noteq> StatusTaskComplete \<and> StatusUnknown \<noteq> StatusPlanReady
   \<and> StatusUnknown \<noteq> StatusQuestion
   \<and> UpdateState M0 1700000000 ''s1'' StatusUnknown ''SomeTool'' ''/test'' D0 = Inr D0"
  using UpdateState_dispatch [where m = M0 and now = 1700000000 and sessionID = "''s1''"
      and toolName = "''ExitPlanMode''" and cwd = "''/proj''" and d = D0]
    UpdateState_dispatch [where m = M0 and now = 1700000000 and sessionID = "''s1''"
      and toolName = "''SomeTool''" and cwd = "''/test''" and d = D0
      and status = StatusUnknown]
  by (simp add: StatusUnknown_def StatusTaskComplete_def StatusPlanReady_def
      StatusQuestion_def)

subsection \<open>ShouldSuppressQuestion\<close>

lemma UpdateTaskComplete_then_Load:
  assumes "UpdateTaskComplete m t sid d = Inr d'" "filed_under_own_id m sid d"
    "getStatePath m sid \<notin> read_denied d"
  shows "\<exists>s. Load m sid d' = Inr (Some s) \<and> LastTaskCompleteTime s = t"
proof -
  from assms(1) obtain r where r: "Load m sid d = Inr r"
    and sv: "Save m ((or_new sid r)\<lparr>LastTaskCompleteTime := t\<rparr>) d = Inr d'"
    by (auto simp: UpdateTaskComplete_def split: sum.splits)
  have id: "SessionID ((or_new sid r)\<lparr>LastTaskCompleteTime := t\<rparr>) = sid"
    using or_new_SessionID [OF assms(2) r] by simp
  from Load_after_Save [OF sv] id assms(3) show ?thesis by auto
qed

text \<open>
  C4. The boolean \<open>ShouldSuppressQuestion\<close> returns is true exactly when the cooldown is
  positive, the session's record is present with a non-zero \<open>LastTaskCompleteTime\<close>, and
  \<open>now - LastTaskCompleteTime < cooldownSeconds\<close>: the \<open>int64\<close> difference the code
  computes, which is the difference of the two numbers when the stored time is neither
  before the epoch nor after \<open>now\<close>. A cooldown \<open>\<le> 0\<close> yields \<open>(false, nil)\<close>. After a successful
  \<open>UpdateTaskComplete\<close> at time \<open>t\<close> (not the epoch itself, whose timestamp \<open>0\<close> means
  "never") on a readable session file filed under its own identifier, the query for the
  same session returns \<open>(true, nil)\<close> as long as fewer than \<open>cooldownSeconds\<close> seconds have
  elapsed, in particular at once.
\<close>

theorem ShouldSuppressQuestion_spec:
  "(fst (ShouldSuppressQuestion m now sid cd d) \<longleftrightarrow>
      0 < sint cd \<and> (\<exists>s. Load m sid d = Inr (Some s) \<and> LastTaskCompleteTime s \<noteq> 0
        \<and> sint (now - LastTaskCompleteTime s) < sint cd))
   \<and> ((\<forall>s. Load m sid d = Inr (Some s) \<longrightarrow> sane_times (LastTaskCompleteTime s) now) \<longrightarrow>
        (fst (ShouldSuppressQuestion m now sid cd d) \<longleftrightarrow>
           0 < sint cd \<and> (\<exists>s. Load m sid d = Inr (Some s) \<and> LastTaskCompleteTime s \<noteq> 0
             \<and> sint now - sint (LastTaskCompleteTime s) < sint cd)))
   \<and> (sint cd \<le> 0 \<longrightarrow> ShouldSuppressQuestion m now sid cd d = (False, None))
   \<and> (UpdateTaskComplete m t sid d = Inr d' \<and> filed_under_own_id m sid d
        \<and> getStatePath m sid \<notin> read_denied d
        \<and> t \<noteq> 0 \<and> 0 < sint cd \<and> sint (now' - t) < sint cd \<longrightarrow>
      ShouldSuppressQuestion m now' sid cd d' = (True, None))"
proof (intro conjI impI)
  assume "\<forall>s. Load m sid d = Inr (Some s) \<longrightarrow> sane_times (LastTaskCompleteTime s) now"
  then show "fst (ShouldSuppressQuestion m now sid cd d) \<longleftrightarrow>
           0 < sint cd \<and> (\<exists>s. Load m sid d = Inr (Some s) \<and> LastTaskCompleteTime s \<noteq> 0
             \<and> sint now - sint (LastTaskCompleteTime s) < sint cd)"
    by (auto simp: ShouldSuppressQuestion_def Let_def elapsed_sane
        split: sum.splits option.splits)
next
  show "fst (ShouldSuppressQuestion m now sid cd d) \<longleftrightarrow>
      0 < sint cd \<and> (\<exists>s. Load m sid d = Inr (Some s) \<and> LastTaskCompleteTime s \<noteq> 0
        \<and> sint (now - LastTaskCompleteTime s) < sint cd)"
    by (auto simp: ShouldSuppressQuestion_def Let_def split: sum.splits option.splits)
next
  assume "sint cd \<le> 0"
  then show "ShouldSuppressQuestion m now sid cd d = (False, None)"
    by (simp add: ShouldSuppressQuestion_def)
next
  assume h: "UpdateTaskComplete m t sid d = Inr d' \<and> filed_under_own_id m sid d
        \<and> getStatePath m sid \<notin> read_denied d
        \<and> t \<noteq> 0 \<and> 0 < sint cd \<and> sint (now' - t) < sint cd"
  then obtain s where "Load m sid d' = Inr (Some s)" "LastTaskCompleteTime s = t"
    using UpdateTaskComplete_then_Load by blast
  with h show "ShouldSuppressQuestion m now' sid cd d' = (True, None)"
    by (simp add: ShouldSuppressQuestion_def)
qed

theorem ShouldSuppressQuestion_spec_witness:
  "sint (0 :: int64) \<le> 0
   \<and> ShouldSuppressQuestion M0 1700000000 ''s1'' 0 D1 = (False, None)
   \<and> UpdateTaskComplete M0 1700000000 ''s1'' D0 = Inr D1
   \<and> filed_under_own_id M0 ''s1'' D0
   \<and> getStatePath M0 ''s1'' \<notin> read_denied D0
   \<and> (1700000000 :: int64) \<noteq> 0 \<and> 0 < sint (5 :: int64)
   \<and> sint (1700000003 - 1700000000 :: int64) < sint (5 :: int64)
   \<and> ShouldSuppressQuestion M0 1700000003 ''s1'' 5 D1 = (True, None)
   \<and> Load M0 ''s1'' D1 = Inr (Some S1) \<and> sane_times (LastTaskCompleteTime S1) 1700000003
   \<and> sint (1700000003 :: int64) - sint (LastTaskCompleteTime S1) < sint (5 :: int64)
   \<and> fst (ShouldSuppressQuestion M0 1700000003 ''s1'' 5 D1)"
proof -
  have zero: "ShouldSuppressQuestion M0 1700000000 ''s1'' 0 D1 = (False, None)"
    using ShouldSuppressQuestion_spec [where m = M0 and now = 1700000000 and sid = "''s1''"
        and cd = 0 and d = D1, THEN conjunct2, THEN conjunct2, THEN conjunct1]
    by simp
  have after: "ShouldSuppressQuestion M0 1700000003 ''s1'' 5 D1 = (True, None)"
    using ShouldSuppressQuestion_spec [where m = M0 and sid = "''s1''" and cd = 5
        and d = D0 and t = 1700000000 and d' = D1 and now' = 1700000003,
        THEN conjunct2, THEN conjunct2, THEN conjunct2]
    by (simp add: D0_UpdateTaskComplete D0_filed D0_readable)
  have sane: "\<forall>s. Load M0 ''s1'' D1 = Inr (Some s) \<longrightarrow>
      sane_times (LastTaskCompleteTime s) 1700000003"
    by (simp add: D1_Load S1_sane)
  have "fst (ShouldSuppressQuestion M0 1700000003 ''s1'' 5 D1) \<longleftrightarrow>
      0 < sint (5 :: int64) \<and> (\<exists>s. Load M0 ''s1'' D1 = Inr (Some s)
        \<and> LastTaskCompleteTime s \<noteq> 0
        \<and> sint (1700000003 :: int64) - sint (LastTaskCompleteTime s) < sint (5 :: int64))"
    using ShouldSuppressQuestion_spec [where m = M0 and now = 1700000003 and sid = "''s1''"
        and cd = 5 and d = D1, THEN conjunct2, THEN conjunct1] sane
    by (rule mp)
  then have int: "fst (ShouldSuppressQuestion M0 1700000003 ''s1'' 5 D1)"
    by (simp add: D1_Load) (simp add: S1_def)
  show ?thesis
    using zero after int
    by (simp add: D0_UpdateTaskComplete D0_filed D0_readable D1_Load S1_sane)
      (simp add: S1_def)
qed

subsection \<open>ShouldSuppressQuestionAfterAnyNotification\<close>

lemma Save_filed:
  assumes "Save m st d = Inr d'" "SessionID st = sid"
  shows "filed_under_own_id m sid d'"
  using assms
  by (auto simp: Save_Inr_iff filed_under_own_id_def Load_cases
      split: option.splits file_data.splits sum.splits if_splits)

lemma Save_read_denied: "Save m st d = Inr d' \<Longrightarrow> read_denied d' = read_denied d"
  by (auto simp: Save_Inr_iff)

lemma UpdateInteractiveTool_keeps:
  assumes "UpdateInteractiveTool m t sid tool cwd d = Inr d'"
  shows "(filed_under_own_id m sid d \<longrightarrow> filed_under_own_id m sid d')
    \<and> read_denied d' = read_denied d"
proof -
  let ?upd = "\<lambda>r. (or_new sid r)\<lparr>LastInteractiveTool := tool, LastTimestamp := t, CWD := cwd\<rparr>"
  from assms obtain r where r: "Load m sid d = Inr r"
    and sv: "Save m (?upd r) d = Inr d'"
    by (auto simp: UpdateInteractiveTool_def split: sum.splits)
  have "filed_under_own_id m sid d'" if "filed_under_own_id m sid d"
  proof -
    have "SessionID (?upd r) = sid"
      using or_new_SessionID [OF that r] by simp
    with sv show ?thesis by (rule Save_filed)
  qed
  with Save_read_denied [OF sv] show ?thesis by simp
qed

lemma UpdateLastNotification_then_Load:
  assumes "UpdateLastNotification m t sid status msg d = Inr d'" "filed_under_own_id m sid d"
    "getStatePath m sid \<notin> read_denied d"
  shows "\<exists>s. Load m sid d' = Inr (Some s) \<and> LastNotificationTime s = t
     \<and> LastNotificationStatus s = status \<and> LastNotificationMessage s = msg"
proof -
  let ?upd = "\<lambda>r. (or_new sid r)\<lparr>LastNotificationTime := t, LastNotificationStatus := status,
                     LastNotificationMessage := msg\<rparr>"
  from assms(1) obtain r where r: "Load m sid d = Inr r"
    and sv: "Save m (?upd r) d = Inr d'"
    by (auto simp: UpdateLastNotification_def split: sum.splits)
  have id: "SessionID (?upd r) = sid"
    using or_new_SessionID [OF assms(2) r] by simp
  from Load_after_Save [OF sv] id assms(3) show ?thesis by auto
qed

lemma D0_UpdateInteractiveTool:
  "UpdateInteractiveTool M0 1700000000 ''s1'' ''ExitPlanMode'' ''/proj'' D0 = Inr D2"
  by (simp add: UpdateInteractiveTool_def Load_def Save_def M0_def D0_def D2_def
      getStatePath_def path_eval or_new_def new_SessionState_def)

lemma D2_UpdateLastNotification:
  "UpdateLastNotification M0 1700000001 ''s1'' StatusPlanReady ''plan ready'' D2 = Inr D3"
  by (simp add: UpdateLastNotification_def Load_def Save_def M0_def D2_def D3_def
      getStatePath_def path_eval or_new_def new_SessionState_def)

lemma same_cooldown_test:
  "(case Load m sid d of
      Inr (Some s) \<Rightarrow>
        ShouldSuppressQuestionAfterAnyNotification m now sid cd d
          = ShouldSuppressQuestion m now sid cd
              (d\<lparr>files := (files d)(getStatePath m sid \<mapsto>
                   Stored (s\<lparr>LastTaskCompleteTime := LastNotificationTime s\<rparr>))\<rparr>)
    | _ \<Rightarrow>
        ShouldSuppressQuestionAfterAnyNotification m now sid cd d
          = ShouldSuppressQuestion m now sid cd d)"
  by (auto simp: ShouldSuppressQuestionAfterAnyNotification_def ShouldSuppressQuestion_def
      Load_cases Let_def split: sum.splits option.splits file_data.splits if_splits)

text \<open>
  C5. \<open>ShouldSuppressQuestionAfterAnyNotification\<close> is the cooldown test of
  \<open>ShouldSuppressQuestion\<close> on \<open>LastNotificationTime\<close>: it returns what
  \<open>ShouldSuppressQuestion\<close> returns once the record's \<open>LastNotificationTime\<close> has been
  put in the place of its \<open>LastTaskCompleteTime\<close>. The boolean it returns is true
  exactly when the cooldown is positive, the session's record is present with a non-zero
  \<open>LastNotificationTime\<close>, and \<open>now - LastNotificationTime < cooldownSeconds\<close> (in \<open>int64\<close>,
  which is the difference of the two numbers when the stored time is neither before the
  epoch nor after \<open>now\<close>).
  After \<open>UpdateInteractiveTool\<close> and then \<open>UpdateLastNotification\<close> for one session (both
  successful, the second at a time \<open>tb\<close> other than \<open>0\<close>, on a readable session file filed
  under its own identifier), the query for that session returns \<open>(true, nil)\<close> while fewer
  than \<open>cooldownSeconds\<close> seconds have elapsed since \<open>tb\<close>.
\<close>

theorem ShouldSuppressQuestionAfterAnyNotification_spec:
  "(fst (ShouldSuppressQuestionAfterAnyNotification m now sid cd d) \<longleftrightarrow>
      0 < sint cd \<and> (\<exists>s. Load m sid d = Inr (Some s) \<and> LastNotificationTime s \<noteq> 0
        \<and> sint (now - LastNotificationTime s) < sint cd))
   \<and> ((\<forall>s. Load m sid d = Inr (Some s) \<longrightarrow> sane_times (LastNotificationTime s) now) \<longrightarrow>
        (fst (ShouldSuppressQuestionAfterAnyNotification m now sid cd d) \<longleftrightarrow>
           0 < sint cd \<and> (\<exists>s. Load m sid d = Inr (Some s) \<and> LastNotificationTime s \<noteq> 0
             \<and> sint now - sint (LastNotificationTime s) < sint cd)))
   \<and> (case Load m sid d of
        Inr (Some s) \<Rightarrow>
          ShouldSuppressQuestionAfterAnyNotification m now sid cd d
            = ShouldSuppressQuestion m now sid cd
                (d\<lparr>files := (files d)(getStatePath m sid \<mapsto>
                     Stored (s\<lparr>LastTaskCompleteTime := LastNotificationTime s\<rparr>))\<rparr>)
      | _ \<Rightarrow>
          ShouldSuppressQuestionAfterAnyNotification m now sid cd d
            = ShouldSuppressQuestion m now sid cd d)
   \<and> (UpdateInteractiveTool m ta sid tool cwd d = Inr da
        \<and> UpdateLastNotification m tb sid status msg da = Inr db
        \<and> filed_under_own_id m sid d \<and> getStatePath m sid \<notin> read_denied d
        \<and> tb \<noteq> 0 \<and> 0 < sint cd \<and> sint (now' - tb) < sint cd \<longrightarrow>
      ShouldSuppressQuestionAfterAnyNotification m now' sid cd db = (True, None))"
proof (intro conjI impI)
  show "fst (ShouldSuppressQuestionAfterAnyNotification m now sid cd d) \<longleftrightarrow>
      0 < sint cd \<and> (\<exists>s. Load m sid d = Inr (Some s) \<and> LastNotificationTime s \<noteq> 0
        \<and> sint (now - LastNotificationTime s) < sint cd)"
    by (auto simp: ShouldSuppressQuestionAfterAnyNotification_def Let_def
        split: sum.splits option.splits)
next
  assume "\<forall>s. Load m sid d = Inr (Some s) \<longrightarrow> sane_times (LastNotificationTime s) now"
  then show "fst (ShouldSuppressQuestionAfterAnyNotification m now sid cd d) \<longleftrightarrow>
           0 < sint cd \<and> (\<exists>s. Load m sid d = Inr (Some s) \<and> LastNotificationTime s \<noteq> 0
             \<and> sint now - sint (LastNotificationTime s) < sint cd)"
    by (auto simp: ShouldSuppressQuestionAfterAnyNotification_def Let_def elapsed_sane
        split: sum.splits option.splits)
next
  show "case Load m sid d of
        Inr (Some s) \<Rightarrow>
          ShouldSuppressQuestionAfterAnyNotification m now sid cd d
            = ShouldSuppressQuestion m now sid cd
                (d\<lparr>files := (files d)(getStatePath m sid \<mapsto>
                     Stored (s\<lparr>LastTaskCompleteTime := LastNotificationTime s\<rparr>))\<rparr>)
      | _ \<Rightarrow>
          ShouldSuppressQuestionAfterAnyNotification m now sid cd d
            = ShouldSuppressQuestion m now sid cd d"
    by (rule same_cooldown_test)
next
  assume h: "UpdateInteractiveTool m ta sid tool cwd d = Inr da
        \<and> UpdateLastNotification m tb sid status msg da = Inr db
        \<and> filed_under_own_id m sid d \<and> getStatePath m sid \<notin> read_denied d
        \<and> tb \<noteq> 0 \<and> 0 < sint cd \<and> sint (now' - tb) < sint cd"
  then have "filed_under_own_id m sid da" "getStatePath m sid \<notin> read_denied da"
    using UpdateInteractiveTool_keeps [of m ta sid tool cwd d da] by simp_all
  with h obtain s where "Load m sid db = Inr (Some s)" "LastNotificationTime s = tb"
    using UpdateLastNotification_then_Load by blast
  with h show "ShouldSuppressQuestionAfterAnyNotification m now' sid cd db = (True, None)"
    by (simp add: ShouldSuppressQuestionAfterAnyNotification_def)
qed

theorem ShouldSuppressQuestionAfterAnyNotification_spec_witness:
  "UpdateInteractiveTool M0 1700000000 ''s1'' ''ExitPlanMode'' ''/proj'' D0 = Inr D2
   \<and> UpdateLastNotification M0 1700000001 ''s1'' StatusPlanReady ''plan ready'' D2 = Inr D3
   \<and> filed_under_own_id M0 ''s1'' D0 \<and> getStatePath M0 ''s1'' \<notin> read_denied D0
   \<and> (1700000001 :: int64) \<noteq> 0 \<and> 0 < sint (60 :: int64)
   \<and> sint (1700000031 - 1700000001 :: int64) < sint (60 :: int64)
   \<and> ShouldSuppressQuestionAfterAnyNotification M0 1700000031 ''s1'' 60 D3 = (True, None)
   \<and> Load M0 ''s1'' D3 = Inr (Some S3) \<and> sane_times (LastNotificationTime S3) 1700000031
   \<and> sint (1700000031 :: int64) - sint (LastNotificationTime S3) < sint (60 :: int64)
   \<and> fst (ShouldSuppressQuestionAfterAnyNotification M0 1700000031 ''s1'' 60 D3)"
proof -
  have after:
    "ShouldSuppressQuestionAfterAnyNotification M0 1700000031 ''s1'' 60 D3 = (True, None)"
    using ShouldSuppressQuestionAfterAnyNotification_spec [where m = M0 and sid = "''s1''"
        and cd = 60 and d = D0 and ta = 1700000000 and tool = "''ExitPlanMode''"
        and cwd = "''/proj''" and da = D2 and tb = 1700000001 and status = StatusPlanReady
        and msg = "''plan ready''" and db = D3 and now' = 1700000031,
        THEN conjunct2, THEN conjunct2, THEN conjunct2]
    by (simp add: D0_UpdateInteractiveTool D2_UpdateLastNotification D0_filed D0_readable)
  have sane: "\<forall>s. Load M0 ''s1'' D3 = Inr (Some s) \<longrightarrow>
      sane_times (LastNotificationTime s) 1700000031"
    by (simp add: D3_Load S3_sane)
  have "fst (ShouldSuppressQuestionAfterAnyNotification M0 1700000031 ''s1'' 60 D3) \<longleftrightarrow>
      0 < sint (60 :: int64) \<and> (\<exists>s. Load M0 ''s1'' D3 = Inr (Some s)
        \<and> LastNotificationTime s \<noteq> 0
        \<and> sint (1700000031 :: int64) - sint (LastNotificationTime s) < sint (60 :: int64))"
    using ShouldSuppressQuestionAfterAnyNotification_spec [where m = M0
        and now = 1700000031 and sid = "''s1''" and cd = 60 and d = D3,
        THEN conjunct2, THEN conjunct1] sane
    by (rule mp)
  then have int: "fst (ShouldSuppressQuestionAfterAnyNotification M0 1700000031 ''s1'' 60 D3)"
    by (simp add: D3_Load) (simp add: S3_def)
  show ?thesis
    using after int
    by (simp add: D0_UpdateInteractiveTool D2_UpdateLastNotification D0_filed D0_readable
        D3_Load S3_sane) (simp add: S3_def)
qed

subsection \<open>IsDuplicateMessage\<close>

text \<open>
  On ASCII text every byte is a rune, and the three library functions are what the byte
  loops of \<open>ascii_normalize\<close> compute.
\<close>

lemma decode_tail_ascii: "b < 0x80 \<Longrightarrow> decode_tail b cs = (b, 0)"
  by (simp add: decode_tail.simps)

lemma ascii_Cons: "ascii (c # cs) \<longleftrightarrow> (of_char c :: nat) < 0x80 \<and> ascii cs"
  by (simp add: ascii_def)

lemma ascii_dropWhile: "ascii s \<Longrightarrow> ascii (dropWhile P s)"
  unfolding ascii_def list_all_iff using set_dropWhileD by fast

lemma ascii_rev: "ascii (rev s) = ascii s"
  by (simp add: ascii_def list_all_iff)

lemma runes_of_ascii: "ascii s \<Longrightarrow> runes_of s = map of_char s"
  by (induction s) (simp_all add: ascii_Cons decode_tail_ascii)

lemma IsSpace_ascii: "(of_char c :: nat) < 0x80 \<Longrightarrow> IsSpace (of_char c) = asciiSpace c"
  by (auto simp: IsSpace_def asciiSpace_def Let_def)

lemma TrimLeftFunc_ascii: "ascii s \<Longrightarrow> TrimLeftFunc IsSpace s = dropWhile asciiSpace s"
  by (induction s) (simp_all add: ascii_Cons decode_tail_ascii IsSpace_ascii)

lemma decode_last_tail_ascii:
  "(of_char c :: nat) < 0x80 \<Longrightarrow> decode_last_tail c prev = (of_char c, 0)"
  by (simp add: decode_last_tail_def)

lemma trim_last_ascii: "ascii s \<Longrightarrow> trim_last IsSpace s = dropWhile asciiSpace s"
  by (induction s) (simp_all add: ascii_Cons decode_last_tail_ascii IsSpace_ascii)

lemma TrimSpace_ascii: "ascii s \<Longrightarrow> TrimSpace s = ascii_trim s"
  by (simp add: TrimSpace_def TrimRightFunc_def ascii_trim_def TrimLeftFunc_ascii
      trim_last_ascii ascii_rev ascii_dropWhile)

lemma ascii_trim_ascii: "ascii s \<Longrightarrow> ascii (ascii_trim s)"
  by (simp add: ascii_trim_def ascii_rev ascii_dropWhile)

lemma TrimRight_period: "TrimRight s ''.'' = strip_periods s"
  by (simp add: TrimRight_def strip_periods_def)

lemma strip_periods_ascii: "ascii s \<Longrightarrow> ascii (strip_periods s)"
  by (simp add: strip_periods_def ascii_rev ascii_dropWhile)

lemma EncodeRune_ascii: "r < 0x80 \<Longrightarrow> EncodeRune r = [char_of r]"
  by (simp add: EncodeRune_def)

lemma lower_rune_ascii:
  "(of_char c :: nat) < 0x80 \<Longrightarrow>
   EncodeRune (unicode_ToLower table (of_char c)) = [ascii_lower c]"
  by (simp add: unicode_ToLower_def ascii_lower_def EncodeRune_ascii Let_def)

lemma ToLower_ascii: "ascii s \<Longrightarrow> ToLower table s = map ascii_lower s"
  by (induction s)
     (simp_all add: ToLower_def Map_runes_def ascii_Cons decode_tail_ascii lower_rune_ascii)

lemma normalizeMessage_ascii:
  "ascii msg \<Longrightarrow> normalizeMessage table msg = ascii_normalize msg"
  by (simp add: normalizeMessage_def ascii_normalize_def TrimSpace_ascii TrimRight_period
      ToLower_ascii ascii_trim_ascii strip_periods_ascii)

text \<open>
  Periods at the end of a string change the decoding of no rune before them: a period is
  no continuation byte.
\<close>

lemma cont_period: "\<not> cont CHR ''.''"
  by (simp add: cont_def)

lemma second_ok_cont: "second_ok b c \<Longrightarrow> cont c"
  by (auto simp: second_ok_def cont_def Let_def split: if_splits)

lemma decode_tail_append:
  assumes "\<forall>d\<in>set ds. \<not> cont d"
  shows "decode_tail b (cs @ ds) = decode_tail b cs"
proof -
  have nc: "\<And>d. d \<in> set ds \<Longrightarrow> \<not> cont d" "\<And>d b. d \<in> set ds \<Longrightarrow> \<not> second_ok b d"
    using assms second_ok_cont by blast+
  show ?thesis
  proof (cases cs)
    case Nil
    then show ?thesis using nc
      by (cases ds) (auto simp: decode_tail.simps split: list.splits)
  next
    case c1: (Cons c1 cs1)
    show ?thesis
    proof (cases cs1)
      case Nil
      then show ?thesis using nc c1
        by (cases ds) (auto simp: decode_tail.simps split: list.splits)
    next
      case c2: (Cons c2 cs2)
      show ?thesis
      proof (cases cs2)
        case Nil
        then show ?thesis using nc c1 c2
          by (cases ds) (auto simp: decode_tail.simps split: list.splits)
      next
        case (Cons c3 cs3)
        then show ?thesis using c1 c2
          by (simp add: decode_tail.simps)
      qed
    qed
  qed
qed

lemma decode_tail_length: "snd (decode_tail b cs) \<le> length cs"
  by (auto simp: decode_tail.simps split: list.splits)

lemma periods_no_cont: "\<forall>d\<in>set (replicate n CHR ''.''). \<not> cont d"
  by (simp add: cont_period)

lemma not_space_period: "\<not> IsSpace 46"
  by (simp add: IsSpace_def)

lemma TrimLeftFunc_periods:
  "TrimLeftFunc IsSpace (replicate n CHR ''.'') = replicate n CHR ''.''"
  by (cases n) (simp_all add: decode_tail_ascii not_space_period)

lemma TrimLeftFunc_append_periods:
  "TrimLeftFunc IsSpace (xs @ replicate n CHR ''.'') =
   TrimLeftFunc IsSpace xs @ replicate n CHR ''.''"
proof (induction IsSpace xs rule: TrimLeftFunc.induct)
  case 1
  show ?case by (simp add: TrimLeftFunc_periods)
next
  case (2 c cs)
  obtain r k where d: "decode_tail (of_char c) cs = (r, k)" by (cases "decode_tail (of_char c) cs")
  have k: "k \<le> length cs" using decode_tail_length [of "of_char c" cs] d by simp
  have d': "decode_tail (of_char c) (cs @ replicate n CHR ''.'') = (r, k)"
    using decode_tail_append [OF periods_no_cont] d by simp
  show ?case using 2 d d' k by simp
qed

lemma TrimRightFunc_period_end:
  "TrimRightFunc IsSpace (ys @ replicate (Suc n) CHR ''.'') = ys @ replicate (Suc n) CHR ''.''"
  by (simp add: TrimRightFunc_def decode_last_tail_ascii not_space_period
      replicate_append_same)

lemma strip_periods_append:
  "strip_periods (ys @ replicate n CHR ''.'') = strip_periods ys"
  by (simp add: strip_periods_def dropWhile_append)

text \<open>Messages that differ only in how many periods end them normalize alike.\<close>

lemma normalizeMessage_periods:
  assumes "0 < n" "0 < k"
  shows "normalizeMessage table (xs @ replicate n CHR ''.'') =
         normalizeMessage table (xs @ replicate k CHR ''.'')"
proof -
  have "\<And>j. normalizeMessage table (xs @ replicate (Suc j) CHR ''.'') =
            ToLower table (strip_periods (TrimLeftFunc IsSpace xs))"
    by (simp only: normalizeMessage_def TrimSpace_def TrimLeftFunc_append_periods
        TrimRightFunc_period_end TrimRight_period strip_periods_append)
  moreover obtain n' k' where "n = Suc n'" "k = Suc k'"
    using assms by (cases n; cases k) auto
  ultimately show ?thesis by simp
qed

lemmas ascii_eval = ascii_def ascii_normalize_def ascii_trim_def strip_periods_def
  asciiSpace_def ascii_lower_def char_of_eq_iff

lemmas utf8_eval = decode_tail.simps decode_last_tail_def RuneStart_def cont_def
  second_ok_def low6_def RuneError_def EncodeRune_def char_of_eq_iff

lemma normalizeMessage_Done:
  "normalizeMessage table ''Done.'' = normalizeMessage table ''Done..''"
  by (simp add: normalizeMessage_ascii ascii_eval)

lemma normalizeMessage_unicode_space:
  "normalizeMessage table
     ([CHR 0xC2, CHR 0xA0] @ '' Done. '' @ [CHR 0xE3, CHR 0x80, CHR 0x80]) = ''done''"
  by (simp add: normalizeMessage_def TrimSpace_def TrimRightFunc_def TrimRight_def
      IsSpace_def ToLower_def Map_runes_def unicode_ToLower_def utf8_eval)

lemma normalizeMessage_letter:
  "normalizeMessage table [CHR 0xD0, CHR 0x93, CHR ''.''] = EncodeRune (table 0x413)"
  by (simp add: normalizeMessage_def TrimSpace_def TrimRightFunc_def TrimRight_def
      IsSpace_def ToLower_def Map_runes_def unicode_ToLower_def decode_tail.simps
      decode_last_tail_def RuneStart_def cont_def second_ok_def low6_def RuneError_def)

lemma normalizeMessage_invalid:
  "normalizeMessage table [CHR ''A'', CHR 0xFF] = CHR ''a'' # EncodeRune (table 0xFFFD)"
  by (simp add: normalizeMessage_def TrimSpace_def TrimRightFunc_def TrimRight_def
      IsSpace_def ToLower_def Map_runes_def unicode_ToLower_def decode_tail.simps
      decode_last_tail_def RuneStart_def cont_def second_ok_def low6_def RuneError_def
      EncodeRune_ascii char_of_eq_iff)

text \<open>
  C3. The boolean \<open>IsDuplicateMessage\<close> returns is false when \<open>windowSeconds \<le> 0\<close>, when
  there is no record or its \<open>LastNotificationTime\<close> is \<open>0\<close>, when the stored message is
  empty, and when more than \<open>windowSeconds\<close> seconds have elapsed (\<open>elapsed > window\<close>, in
  \<open>int64\<close>, which is the difference of the two numbers when the stored time is neither
  before the epoch nor after \<open>now\<close>); in every other case it is the equality of the two
  normalized messages. Stated as one equivalence: it is true exactly when none of the
  four holds and the normalized messages are equal.

  Normalization is \<open>normalizeMessage\<close>: white space is trimmed at both ends first, then
  the periods at the end are stripped, then the result is put in lower case.
  \<^item> On ASCII text it is \<open>ascii_normalize\<close>: the bytes \<open>\t \n \v \f \r\<close> and the space are
    dropped at both ends, then the periods at the end, and \<open>A..Z\<close> become \<open>a..z\<close>; every
    other byte stays as it is.
  \<^item> Two messages, ASCII or not, that differ only in the number (not zero) of periods
    at their end normalize alike.
  \<^item> White space beyond ASCII is trimmed too (here U+00A0 in front and U+3000 behind),
    a letter beyond ASCII (here U+0413) is replaced by its image in the case table, and
    a byte that is no UTF-8 comes out as the image of U+FFFD.

  After \<open>"Done.."\<close> has been stored for a session, the candidate \<open>"Done."\<close> is a duplicate
  within the window.
\<close>

theorem IsDuplicateMessage_spec:
  "(fst (IsDuplicateMessage table m now sid msg w d) \<longleftrightarrow>
      0 < sint w \<and> (\<exists>s. Load m sid d = Inr (Some s) \<and> LastNotificationTime s \<noteq> 0
        \<and> LastNotificationMessage s \<noteq> []
        \<and> sint (now - LastNotificationTime s) \<le> sint w
        \<and> normalizeMessage table msg = normalizeMessage table (LastNotificationMessage s)))
   \<and> ((\<forall>s. Load m sid d = Inr (Some s) \<longrightarrow> sane_times (LastNotificationTime s) now) \<longrightarrow>
        (fst (IsDuplicateMessage table m now sid msg w d) \<longleftrightarrow>
           0 < sint w \<and> (\<exists>s. Load m sid d = Inr (Some s) \<and> LastNotificationTime s \<noteq> 0
             \<and> LastNotificationMessage s \<noteq> []
             \<and> sint now - sint (LastNotificationTime s) \<le> sint w
             \<and> normalizeMessage table msg
                 = normalizeMessage table (LastNotificationMessage s))))
   \<and> normalizeMessage table msg = ToLower table (TrimRight (TrimSpace msg) ''.'')
   \<and> (ascii msg \<longrightarrow> normalizeMessage table msg = ascii_normalize msg)
   \<and> (0 < n \<and> 0 < k \<longrightarrow>
        normalizeMessage table (xs @ replicate n CHR ''.'')
          = normalizeMessage table (xs @ replicate k CHR ''.''))
   \<and> normalizeMessage table
        ([CHR 0xC2, CHR 0xA0] @ '' Done. '' @ [CHR 0xE3, CHR 0x80, CHR 0x80]) = ''done''
   \<and> normalizeMessage table [CHR 0xD0, CHR 0x93, CHR ''.''] = EncodeRune (table 0x413)
   \<and> normalizeMessage table [CHR ''A'', CHR 0xFF] = CHR ''a'' # EncodeRune (table 0xFFFD)
   \<and> (UpdateLastNotification m t sid status ''Done..'' d = Inr d'
        \<and> filed_under_own_id m sid d \<and> getStatePath m sid \<notin> read_denied d
        \<and> t \<noteq> 0 \<and> 0 < sint w \<and> sint (now' - t) \<le> sint w \<longrightarrow>
      IsDuplicateMessage table m now' sid ''Done.'' w d' = (True, None))"
proof (intro conjI impI)
  show "fst (IsDuplicateMessage table m now sid msg w d) \<longleftrightarrow>
      0 < sint w \<and> (\<exists>s. Load m sid d = Inr (Some s) \<and> LastNotificationTime s \<noteq> 0
        \<and> LastNotificationMessage s \<noteq> []
        \<and> sint (now - LastNotificationTime s) \<le> sint w
        \<and> normalizeMessage table msg = normalizeMessage table (LastNotificationMessage s))"
    by (auto simp: IsDuplicateMessage_def Let_def split: sum.splits option.splits)
next
  assume "\<forall>s. Load m sid d = Inr (Some s) \<longrightarrow> sane_times (LastNotificationTime s) now"
  then show "fst (IsDuplicateMessage table m now sid msg w d) \<longleftrightarrow>
           0 < sint w \<and> (\<exists>s. Load m sid d = Inr (Some s) \<and> LastNotificationTime s \<noteq> 0
             \<and> LastNotificationMessage s \<noteq> []
             \<and> sint now - sint (LastNotificationTime s) \<le> sint w
             \<and> normalizeMessage table msg
                 = normalizeMessage table (LastNotificationMessage s))"
    by (auto simp: IsDuplicateMessage_def Let_def elapsed_sane
        split: sum.splits option.splits)
next
  show "normalizeMessage table msg = ToLower table (TrimRight (TrimSpace msg) ''.'')"
    by (simp add: normalizeMessage_def)
next
  assume "ascii msg"
  then show "normalizeMessage table msg = ascii_normalize msg"
    by (rule normalizeMessage_ascii)
next
  assume "0 < n \<and> 0 < k"
  then show "normalizeMessage table (xs @ replicate n CHR ''.'')
          = normalizeMessage table (xs @ replicate k CHR ''.'')"
    using normalizeMessage_periods by blast
next
  show "normalizeMessage table
        ([CHR 0xC2, CHR 0xA0] @ '' Done. '' @ [CHR 0xE3, CHR 0x80, CHR 0x80]) = ''done''"
    by (rule normalizeMessage_unicode_space)
next
  show "normalizeMessage table [CHR 0xD0, CHR 0x93, CHR ''.''] = EncodeRune (table 0x413)"
    by (rule normalizeMessage_letter)
next
  show "normalizeMessage table [CHR ''A'', CHR 0xFF] = CHR ''a'' # EncodeRune (table 0xFFFD)"
    by (rule normalizeMessage_invalid)
next
  assume h: "UpdateLastNotification m t sid status ''Done..'' d = Inr d'
        \<and> filed_under_own_id m sid d \<and> getStatePath m sid \<notin> read_denied d
        \<and> t \<noteq> 0 \<and> 0 < sint w \<and> sint (now' - t) \<le> sint w"
  then obtain s where "Load m sid d' = Inr (Some s)" "LastNotificationTime s = t"
    "LastNotificationMessage s = ''Done..''"
    using UpdateLastNotification_then_Load by blast
  with h show "IsDuplicateMessage table m now' sid ''Done.'' w d' = (True, None)"
    by (simp add: IsDuplicateMessage_def normalizeMessage_Done del: One_nat_def)
qed

lemma D1_UpdateTaskComplete:
  "UpdateTaskComplete M0 1700000005 ''s1'' D1
     = Inr (rewritten M0 D1 (S1\<lparr>LastTaskCompleteTime := 1700000005\<rparr>))"
  by (simp add: UpdateTaskComplete_def D1_Load or_new_def Save_def rewritten_def)
    (simp add: M0_def D1_def S1_def getStatePath_def path_eval)

lemma D1_UpdateInteractiveTool:
  "UpdateInteractiveTool M0 1700000005 ''s1'' ''AskUserQuestion'' ''/new/dir'' D1
     = Inr (rewritten M0 D1 (S1\<lparr>LastInteractiveTool := ''AskUserQuestion'',
              LastTimestamp := 1700000005, CWD := ''/new/dir''\<rparr>))"
  by (simp add: UpdateInteractiveTool_def D1_Load or_new_def Save_def rewritten_def)
    (simp add: M0_def D1_def S1_def getStatePath_def path_eval)

lemma D1_UpdateLastNotification:
  "UpdateLastNotification M0 1700000005 ''s1'' StatusTaskComplete ''Done..'' D1
     = Inr (rewritten M0 D1 (S1\<lparr>LastNotificationTime := 1700000005,
              LastNotificationStatus := StatusTaskComplete,
              LastNotificationMessage := ''Done..''\<rparr>))"
  by (simp add: UpdateLastNotification_def D1_Load or_new_def Save_def rewritten_def)
    (simp add: M0_def D1_def S1_def getStatePath_def path_eval)

theorem IsDuplicateMessage_spec_witness:
  "ascii ''  Task Complete!.. ''
   \<and> normalizeMessage id ''  Task Complete!.. '' = ''task complete!''
   \<and> 0 < Suc 0 \<and> 0 < Suc (Suc 0)
   \<and> normalizeMessage id (''Done'' @ replicate (Suc 0) CHR ''.'')
       = normalizeMessage id (''Done'' @ replicate (Suc (Suc 0)) CHR ''.'')
   \<and> UpdateLastNotification M0 1700000005 ''s1'' StatusTaskComplete ''Done..'' D1 = Inr D4
   \<and> filed_under_own_id M0 ''s1'' D1 \<and> getStatePath M0 ''s1'' \<notin> read_denied D1
   \<and> (1700000005 :: int64) \<noteq> 0 \<and> 0 < sint (180 :: int64)
   \<and> sint (1700000185 - 1700000005 :: int64) \<le> sint (180 :: int64)
   \<and> IsDuplicateMessage id M0 1700000185 ''s1'' ''Done.'' 180 D4 = (True, None)
   \<and> Load M0 ''s1'' D4 = Inr (Some S4) \<and> sane_times (LastNotificationTime S4) 1700000185
   \<and> sint (1700000185 :: int64) - sint (LastNotificationTime S4) \<le> sint (180 :: int64)
   \<and> fst (IsDuplicateMessage id M0 1700000185 ''s1'' ''Done.'' 180 D4)"
proof -
  have asc: "ascii ''  Task Complete!.. ''"
    by (simp add: ascii_def)
  have "normalizeMessage id ''  Task Complete!.. '' = ascii_normalize ''  Task Complete!.. ''"
    using IsDuplicateMessage_spec [where table = id and msg = "''  Task Complete!.. ''",
        THEN conjunct2, THEN conjunct2, THEN conjunct2, THEN conjunct1] asc
    by (rule mp)
  then have norm: "normalizeMessage id ''  Task Complete!.. '' = ''task complete!''"
    by (simp add: ascii_eval)
  have upd: "UpdateLastNotification M0 1700000005 ''s1'' StatusTaskComplete ''Done..'' D1
      = Inr D4"
    by (simp add: D1_UpdateLastNotification D4_def S4_def)
  have dots: "normalizeMessage id (''Done'' @ replicate (Suc 0) CHR ''.'')
       = normalizeMessage id (''Done'' @ replicate (Suc (Suc 0)) CHR ''.'')"
    using IsDuplicateMessage_spec [where table = id and n = "Suc 0" and k = "Suc (Suc 0)"
        and xs = "''Done''", THEN conjunct2, THEN conjunct2, THEN conjunct2, THEN conjunct2,
        THEN conjunct1]
    by simp
  have after: "IsDuplicateMessage id M0 1700000185 ''s1'' ''Done.'' 180 D4 = (True, None)"
    using IsDuplicateMessage_spec [where table = id and m = M0 and sid = "''s1''"
        and w = 180 and d = D1 and t = 1700000005 and status = StatusTaskComplete
        and now' = 1700000185 and d' = D4, THEN conjunct2, THEN conjunct2, THEN conjunct2,
        THEN conjunct2, THEN conjunct2, THEN conjunct2, THEN conjunct2, THEN conjunct2]
    by (simp add: upd D1_filed D1_readable)
  have sane: "\<forall>s. Load M0 ''s1'' D4 = Inr (Some s) \<longrightarrow>
      sane_times (LastNotificationTime s) 1700000185"
    by (simp add: D4_Load S4_sane)
  have "fst (IsDuplicateMessage id M0 1700000185 ''s1'' ''Done.'' 180 D4) \<longleftrightarrow>
      0 < sint (180 :: int64) \<and> (\<exists>s. Load M0 ''s1'' D4 = Inr (Some s)
        \<and> LastNotificationTime s \<noteq> 0 \<and> LastNotificationMessage s \<noteq> []
        \<and> sint (1700000185 :: int64) - sint (LastNotificationTime s) \<le> sint (180 :: int64)
        \<and> normalizeMessage id ''Done.'' = normalizeMessage id (LastNotificationMessage s))"
    using IsDuplicateMessage_spec [where table = id and m = M0 and now = 1700000185
        and sid = "''s1''" and msg = "''Done.''" and w = 180 and d = D4,
        THEN conjunct2, THEN conjunct1] sane
    by (rule mp)
  then have int: "fst (IsDuplicateMessage id M0 1700000185 ''s1'' ''Done.'' 180 D4)"
    by (simp add: D4_Load) (simp add: S4_def normalizeMessage_Done)
  show ?thesis
    using asc norm upd dots after int
    by (simp add: D1_filed D1_readable D4_Load S4_sane) (simp add: S4_def)
qed

subsection \<open>The updates change their own fields only\<close>

lemmas unchanged_defs = unchanged_identity_def unchanged_interactive_def
  unchanged_task_complete_def unchanged_notification_def

text \<open>
  C10. On an existing record \<open>s\<close> of the session, a successful update writes one file,
  the one of the record's identifier, and the record \<open>s'\<close> it writes differs from \<open>s\<close> only
  in the fields of the operation: \<open>UpdateTaskComplete\<close> in \<open>LastTaskCompleteTime\<close>;
  \<open>UpdateInteractiveTool\<close> in the tool name, its timestamp and the working directory;
  \<open>UpdateLastNotification\<close> in the time, status and message of the last notification.
  \<open>SessionID\<close> is the same in all three.
\<close>

theorem updates_frame:
  "Load m sid d = Inr (Some s) \<longrightarrow>
     (UpdateTaskComplete m now sid d = Inr d' \<longrightarrow>
        (\<exists>s'. d' = rewritten m d s' \<and> unchanged_identity s s' \<and> unchanged_interactive s s'
           \<and> unchanged_notification s s' \<and> LastTaskCompleteTime s' = now))
   \<and> (UpdateInteractiveTool m now sid toolName cwd d = Inr d' \<longrightarrow>
        (\<exists>s'. d' = rewritten m d s' \<and> unchanged_identity s s' \<and> unchanged_task_complete s s'
           \<and> unchanged_notification s s' \<and> LastInteractiveTool s' = toolName
           \<and> LastTimestamp s' = now \<and> CWD s' = cwd))
   \<and> (UpdateLastNotification m now sid status message d = Inr d' \<longrightarrow>
        (\<exists>s'. d' = rewritten m d s' \<and> unchanged_identity s s' \<and> unchanged_interactive s s'
           \<and> unchanged_task_complete s s' \<and> LastNotificationTime s' = now
           \<and> LastNotificationStatus s' = status \<and> LastNotificationMessage s' = message))"
proof (intro impI conjI)
  assume l: "Load m sid d = Inr (Some s)"
  { assume "UpdateTaskComplete m now sid d = Inr d'"
    with l have "d' = rewritten m d (s\<lparr>LastTaskCompleteTime := now\<rparr>)"
      by (simp add: UpdateTaskComplete_def or_new_def Save_Inr_iff rewritten_def)
    then show "\<exists>s'. d' = rewritten m d s' \<and> unchanged_identity s s'
           \<and> unchanged_interactive s s'
           \<and> unchanged_notification s s' \<and> LastTaskCompleteTime s' = now"
      by (intro exI [of _ "s\<lparr>LastTaskCompleteTime := now\<rparr>"]) (simp add: unchanged_defs) }
  { assume "UpdateInteractiveTool m now sid toolName cwd d = Inr d'"
    with l have "d' = rewritten m d
        (s\<lparr>LastInteractiveTool := toolName, LastTimestamp := now, CWD := cwd\<rparr>)"
      by (simp add: UpdateInteractiveTool_def or_new_def Save_Inr_iff rewritten_def)
    then show "\<exists>s'. d' = rewritten m d s' \<and> unchanged_identity s s'
           \<and> unchanged_task_complete s s'
           \<and> unchanged_notification s s' \<and> LastInteractiveTool s' = toolName
           \<and> LastTimestamp s' = now \<and> CWD s' = cwd"
      by (intro exI [of _
            "s\<lparr>LastInteractiveTool := toolName, LastTimestamp := now, CWD := cwd\<rparr>"])
        (simp add: unchanged_defs) }
  { assume "UpdateLastNotification m now sid status message d = Inr d'"
    with l have "d' = rewritten m d
        (s\<lparr>LastNotificationTime := now, LastNotificationStatus := status,
           LastNotificationMessage := message\<rparr>)"
      by (simp add: UpdateLastNotification_def or_new_def Save_Inr_iff rewritten_def)
    then show "\<exists>s'. d' = rewritten m d s' \<and> unchanged_identity s s'
           \<and> unchanged_interactive s s'
           \<and> unchanged_task_complete s s' \<and> LastNotificationTime s' = now
           \<and> LastNotificationStatus s' = status \<and> LastNotificationMessage s' = message"
      by (intro exI [of _ "s\<lparr>LastNotificationTime := now, LastNotificationStatus := status,
           LastNotificationMessage := message\<rparr>"]) (simp add: unchanged_defs) }
qed

theorem updates_frame_witness:
  "Load M0 ''s1'' D1 = Inr (Some S1)
   \<and> UpdateTaskComplete M0 1700000005 ''s1'' D1
       = Inr (rewritten M0 D1 (S1\<lparr>LastTaskCompleteTime := 1700000005\<rparr>))
   \<and> (\<exists>s'. rewritten M0 D1 (S1\<lparr>LastTaskCompleteTime := 1700000005\<rparr>) = rewritten M0 D1 s'
         \<and> unchanged_identity S1 s' \<and> unchanged_interactive S1 s'
         \<and> unchanged_notification S1 s' \<and> LastTaskCompleteTime s' = 1700000005)
   \<and> UpdateInteractiveTool M0 1700000005 ''s1'' ''AskUserQuestion'' ''/new/dir'' D1
       = Inr (rewritten M0 D1 (S1\<lparr>LastInteractiveTool := ''AskUserQuestion'',
               LastTimestamp := 1700000005, CWD := ''/new/dir''\<rparr>))
   \<and> (\<exists>s'. rewritten M0 D1 (S1\<lparr>LastInteractiveTool := ''AskUserQuestion'',
               LastTimestamp := 1700000005, CWD := ''/new/dir''\<rparr>) = rewritten M0 D1 s'
         \<and> unchanged_identity S1 s' \<and> unchanged_task_complete S1 s'
         \<and> unchanged_notification S1 s' \<and> LastInteractiveTool s' = ''AskUserQuestion''
         \<and> LastTimestamp s' = 1700000005 \<and> CWD s' = ''/new/dir'')
   \<and> UpdateLastNotification M0 1700000005 ''s1'' StatusTaskComplete ''Done..'' D1
       = Inr (rewritten M0 D1 (S1\<lparr>LastNotificationTime := 1700000005,
               LastNotificationStatus := StatusTaskComplete,
               LastNotificationMessage := ''Done..''\<rparr>))
   \<and> (\<exists>s'. rewritten M0 D1 (S1\<lparr>LastNotificationTime := 1700000005,
               LastNotificationStatus := StatusTaskComplete,
               LastNotificationMessage := ''Done..''\<rparr>) = rewritten M0 D1 s'
         \<and> unchanged_identity S1 s' \<and> unchanged_interactive S1 s'
         \<and> unchanged_task_complete S1 s' \<and> LastNotificationTime s' = 1700000005
         \<and> LastNotificationStatus s' = StatusTaskComplete
         \<and> LastNotificationMessage s' = ''Done..'')"
  using
    updates_frame [where m = M0 and sid = "''s1''" and d = D1 and s = S1
      and now = 1700000005
      and d' = "rewritten M0 D1 (S1\<lparr>LastTaskCompleteTime := 1700000005\<rparr>)"]
    updates_frame [where m = M0 and sid = "''s1''" and d = D1 and s = S1
      and now = 1700000005 and toolName = "''AskUserQuestion''" and cwd = "''/new/dir''"
      and d' = "rewritten M0 D1 (S1\<lparr>LastInteractiveTool := ''AskUserQuestion'',
               LastTimestamp := 1700000005, CWD := ''/new/dir''\<rparr>)"]
    updates_frame [where m = M0 and sid = "''s1''" and d = D1 and s = S1
      and now = 1700000005 and status = StatusTaskComplete and message = "''Done..''"
      and d' = "rewritten M0 D1 (S1\<lparr>LastNotificationTime := 1700000005,
               LastNotificationStatus := StatusTaskComplete,
               LastNotificationMessage := ''Done..''\<rparr>)"]
  by (simp only: D1_Load D1_UpdateTaskComplete D1_UpdateInteractiveTool
      D1_UpdateLastNotification simp_thms)

section \<open>Properties of the dedup manager\<close>

lemmas mem_defs = mem_platform_def mem_FileExists_def mem_FileAge_def
  mem_AtomicCreateFile_def mem_Remove_def lockdir_of_def

lemma stop_lock_path: "stop_lock = getLockPath M0 ''s1'' [''Stop'']"
  by (simp add: stop_lock_def getLockPath_def M0_def path_eval)


lemma mem_create_empty:
  "AtomicCreateFile mem_platform path (lockdir_of [] 100 {})
     = (Inr True, lockdir_of [(path, Some 100)] 100 {})"
  by (simp add: mem_defs)

lemma mem_create_existing:
  "AtomicCreateFile mem_platform path (lockdir_of [(path, Some t)] 100 den)
     = (Inr False, lockdir_of [(path, Some t)] 100 den)"
  by (simp add: mem_defs)

lemma mem_create_denied:
  "AtomicCreateFile mem_platform path (lockdir_of [] 100 {path})
     = (Inl (OSError ''permission denied''), lockdir_of [] 100 {path})"
  by (simp add: mem_defs)

lemma mem_age:
  "FileAge mem_platform path (lockdir_of [(path, Some t)] 100 den) = 100 - t"
  by (simp add: mem_defs)

lemma mem_remove:
  "snd (Remove mem_platform path (lockdir_of [(path, Some t)] 100 den))
     = lockdir_of [] 100 den"
  by (simp add: mem_defs)

lemma mem_remove_absent:
  "snd (Remove mem_platform path (lockdir_of [] 100 den)) = lockdir_of [] 100 den"
  by (simp add: mem_defs)

subsection \<open>CheckEarlyDuplicate\<close>

text \<open>
  C6. With \<open>path\<close> the lock file of the session and event kind, \<open>CheckEarlyDuplicate\<close>
  reports a duplicate exactly when the file exists and its age is unreadable (\<open>FileAge\<close>
  gives \<open>-1\<close>) or a number of seconds from \<open>0\<close> up to, not including, \<open>2\<close>. It reports no
  duplicate when the file is absent, and when the file exists with an age of \<open>2\<close> seconds
  or more.
\<close>

theorem CheckEarlyDuplicate_spec:
  assumes "path = getLockPath m sessionID hookEvent"
  shows "(CheckEarlyDuplicate P m sessionID hookEvent fs \<longleftrightarrow>
       FileExists P path fs
       \<and> (FileAge P path fs = - 1
          \<or> (0 \<le> sint (FileAge P path fs) \<and> sint (FileAge P path fs) < 2)))
   \<and> (\<not> FileExists P path fs \<longrightarrow> \<not> CheckEarlyDuplicate P m sessionID hookEvent fs)
   \<and> (FileExists P path fs \<and> 2 \<le> sint (FileAge P path fs) \<longrightarrow>
        \<not> CheckEarlyDuplicate P m sessionID hookEvent fs)"
  using assms by (auto simp: CheckEarlyDuplicate_def Let_def)

theorem CheckEarlyDuplicate_spec_witness:
  "stop_lock = getLockPath M0 ''s1'' [''Stop'']
   \<and> \<not> FileExists mem_platform stop_lock (lockdir_of [] 100 {})
   \<and> \<not> CheckEarlyDuplicate mem_platform M0 ''s1'' [''Stop''] (lockdir_of [] 100 {})
   \<and> FileExists mem_platform stop_lock (lockdir_of [(stop_lock, Some 98)] 100 {})
   \<and> 2 \<le> sint (FileAge mem_platform stop_lock (lockdir_of [(stop_lock, Some 98)] 100 {}))
   \<and> \<not> CheckEarlyDuplicate mem_platform M0 ''s1'' [''Stop'']
         (lockdir_of [(stop_lock, Some 98)] 100 {})
   \<and> CheckEarlyDuplicate mem_platform M0 ''s1'' [''Stop'']
         (lockdir_of [(stop_lock, Some 99)] 100 {})
   \<and> CheckEarlyDuplicate mem_platform M0 ''s1'' [''Stop'']
         (lockdir_of [(stop_lock, None)] 100 {})"
  using
    CheckEarlyDuplicate_spec [OF stop_lock_path, where P = mem_platform
      and fs = "lockdir_of [] 100 {}"]
    CheckEarlyDuplicate_spec [OF stop_lock_path, where P = mem_platform
      and fs = "lockdir_of [(stop_lock, Some 98)] 100 {}"]
    CheckEarlyDuplicate_spec [OF stop_lock_path, where P = mem_platform
      and fs = "lockdir_of [(stop_lock, Some 99)] 100 {}"]
    CheckEarlyDuplicate_spec [OF stop_lock_path, where P = mem_platform
      and fs = "lockdir_of [(stop_lock, None)] 100 {}"]
  by (simp add: mem_defs stop_lock_path)

subsection \<open>AcquireLock\<close>

text \<open>
  C2 says that a stale lock is force-removed and that the filesystem error is propagated
  when the retry fails too. Neither holds where the file cannot be removed: the lock of
  \<open>s1\<close> for \<open>Stop\<close> exists and is 10 seconds old; \<open>os.Remove\<close> fails and the file stays,
  and \<open>AcquireLock\<close> drops that error; the second create-exclusive finds the file and
  creates nothing. The retry has failed, yet \<open>AcquireLock\<close> returns \<open>(false, nil)\<close>: the file
  is still there and no error reaches the caller. (The same result comes out when the
  removal succeeds and another process creates the file before the retry.)
\<close>

theorem AcquireLock_spec_counterexample:
  "stop_lock = getLockPath M0 ''s1'' [''Stop'']
   \<and> AtomicCreateFile sticky_platform stop_lock stale_dir = (Inr False, stale_dir)
   \<and> FileAge sticky_platform stop_lock stale_dir = 10
   \<and> Remove sticky_platform stop_lock stale_dir
        = (Some (OSError ''operation not permitted''), stale_dir)
   \<and> AtomicCreateFile sticky_platform stop_lock (snd (Remove sticky_platform stop_lock stale_dir))
        = (Inr False, stale_dir)
   \<and> FileExists sticky_platform stop_lock stale_dir
   \<and> AcquireLock sticky_platform M0 ''s1'' [''Stop''] stale_dir = ((False, None), stale_dir)"
  by (simp add: AcquireLock_def stop_lock_path [symmetric] sticky_platform_def stale_dir_def
      mem_defs)

text \<open>
  C2, amended. Let \<open>path\<close> be the lock file of the session and event kind, \<open>(ra, fsa)\<close> what
  the first create-exclusive returns, \<open>age\<close> the age of the file after it, and \<open>(rb, fsb)\<close>
  what a second create-exclusive returns after \<open>os.Remove\<close> has been called on the file.
  Then: a first create that fails with an error yields that error, wrapped; a create
  that succeeds yields \<open>(true, nil)\<close>; a file that exists with an age from \<open>0\<close> up to, not
  including, \<open>2\<close> seconds yields \<open>(false, nil)\<close> and nothing further is done; on a file
  that exists with an age of \<open>2\<close> seconds or more \<open>os.Remove\<close> is called, whatever it
  returns is ignored, and the create is run exactly one more time, whose outcome is the
  result: when it returns the error \<open>err\<close>, an error that wraps \<open>err\<close>, and \<open>(created, nil)\<close>
  when it returns no error, which is \<open>(false, nil)\<close> when the file is still there or there
  again. The code takes the same path for a negative age, which is what \<open>FileAge\<close> gives
  for a file whose time cannot be read.
\<close>

theorem AcquireLock_spec:
  assumes "path = getLockPath m sessionID hookEvent"
    and "AtomicCreateFile P path fs = (ra, fsa)"
    and "age = FileAge P path fsa"
    and "AtomicCreateFile P path (snd (Remove P path fsa)) = (rb, fsb)"
  shows "(ra = Inr True \<longrightarrow> AcquireLock P m sessionID hookEvent fs = ((True, None), fsa))
   \<and> (ra = Inr False \<and> 0 \<le> sint age \<and> sint age < 2 \<longrightarrow>
        AcquireLock P m sessionID hookEvent fs = ((False, None), fsa))
   \<and> (ra = Inr False \<and> (2 \<le> sint age \<or> sint age < 0) \<longrightarrow>
        AcquireLock P m sessionID hookEvent fs =
          (case rb of
             Inr created \<Rightarrow> ((created, None), fsb)
           | Inl err \<Rightarrow>
               ((False, Some (Errorf ''failed to create lock file after cleanup'' (Some err))),
                fsb)))
   \<and> (ra = Inr False \<and> (2 \<le> sint age \<or> sint age < 0) \<and> rb = Inl err \<longrightarrow>
        (\<exists>e. snd (fst (AcquireLock P m sessionID hookEvent fs)) = Some e
             \<and> root_cause e = root_cause err))
   \<and> (ra = Inl err \<longrightarrow>
        AcquireLock P m sessionID hookEvent fs
          = ((False, Some (Errorf ''failed to create lock file'' (Some err))), fsa))"
  using assms by (auto simp: AcquireLock_def Let_def split: sum.splits)

theorem AcquireLock_spec_witness:
  "stop_lock = getLockPath M0 ''s1'' [''Stop'']
   \<and> AtomicCreateFile mem_platform stop_lock (lockdir_of [] 100 {})
       = (Inr True, lockdir_of [(stop_lock, Some 100)] 100 {})
   \<and> AcquireLock mem_platform M0 ''s1'' [''Stop''] (lockdir_of [] 100 {})
       = ((True, None), lockdir_of [(stop_lock, Some 100)] 100 {})
   \<and> AtomicCreateFile mem_platform stop_lock (lockdir_of [(stop_lock, Some 99)] 100 {})
       = (Inr False, lockdir_of [(stop_lock, Some 99)] 100 {})
   \<and> sint (FileAge mem_platform stop_lock (lockdir_of [(stop_lock, Some 99)] 100 {})) < 2
   \<and> AcquireLock mem_platform M0 ''s1'' [''Stop''] (lockdir_of [(stop_lock, Some 99)] 100 {})
       = ((False, None), lockdir_of [(stop_lock, Some 99)] 100 {})
   \<and> 2 \<le> sint (FileAge mem_platform stop_lock (lockdir_of [(stop_lock, Some 90)] 100 {}))
   \<and> AcquireLock mem_platform M0 ''s1'' [''Stop''] (lockdir_of [(stop_lock, Some 90)] 100 {})
       = ((True, None), lockdir_of [(stop_lock, Some 100)] 100 {})
   \<and> AtomicCreateFile mem_platform stop_lock (lockdir_of [] 100 {stop_lock})
       = (Inl (OSError ''permission denied''), lockdir_of [] 100 {stop_lock})
   \<and> AcquireLock mem_platform M0 ''s1'' [''Stop'']
        (lockdir_of [(stop_lock, Some 90)] 100 {stop_lock})
       = ((False, Some (Errorf ''failed to create lock file after cleanup''
                          (Some (OSError ''permission denied'')))),
          lockdir_of [] 100 {stop_lock})
   \<and> AcquireLock mem_platform M0 ''s1'' [''Stop''] (lockdir_of [] 100 {stop_lock})
       = ((False, Some (Errorf ''failed to create lock file''
                          (Some (OSError ''permission denied'')))),
          lockdir_of [] 100 {stop_lock})"
  using
    AcquireLock_spec [OF stop_lock_path mem_create_empty refl, where rb = "Inr True"
      and fsb = "lockdir_of [(stop_lock, Some 100)] 100 {}"]
    AcquireLock_spec [OF stop_lock_path mem_create_existing refl,
      where t2 = 99 and den2 = "{}" and rb = "Inr True"
      and fsb = "lockdir_of [(stop_lock, Some 100)] 100 {}"]
    AcquireLock_spec [OF stop_lock_path mem_create_existing refl,
      where t2 = 90 and den2 = "{}" and rb = "Inr True"
      and fsb = "lockdir_of [(stop_lock, Some 100)] 100 {}"]
    AcquireLock_spec [OF stop_lock_path mem_create_existing refl,
      where t2 = 90 and den2 = "{stop_lock}" and rb = "Inl (OSError ''permission denied'')"
      and fsb = "lockdir_of [] 100 {stop_lock}"
      and err = "OSError ''permission denied''"]
    AcquireLock_spec [OF stop_lock_path mem_create_denied refl,
      where rb = "Inl (OSError ''permission denied'')"
      and fsb = "lockdir_of [] 100 {stop_lock}"
      and err = "OSError ''permission denied''"]
  by (simp add: mem_age mem_remove mem_remove_absent mem_create_empty mem_create_denied
      mem_create_existing stop_lock_path [symmetric])

text \<open>
  On the lock directory in memory: of two attempts on a key that is free, the first
  acquires the lock and the second, made while the lock is fresh, does not; an attempt
  made \<open>2\<close> seconds or more after the first takes the stale lock over.
\<close>

lemma mem_AcquireLock_twice:
  assumes "path = getLockPath m sessionID hookEvent"
    and "locks fs path = None" "path \<notin> create_denied fs"
    and "held = fs\<lparr>locks := (locks fs)(path \<mapsto> Some (clock fs))\<rparr>"
  shows "AcquireLock mem_platform m sessionID hookEvent fs = ((True, None), held)"
    and "AcquireLock mem_platform m sessionID hookEvent held = ((False, None), held)"
    and "2 \<le> sint later \<Longrightarrow>
         AcquireLock mem_platform m sessionID hookEvent (held\<lparr>clock := clock fs + later\<rparr>)
           = ((True, None),
              fs\<lparr>locks := (locks fs)(path \<mapsto> Some (clock fs + later)),
                 clock := clock fs + later\<rparr>)"
  using assms
  by (simp_all add: AcquireLock_def mem_platform_def mem_FileExists_def mem_FileAge_def
      mem_AtomicCreateFile_def mem_Remove_def Let_def)

subsection \<open>AcquireContentLock\<close>








section \<open>Properties of the sender\<close>

lemma limiter_rejects_upd [simp]:
  "limiter_rejects (E\<lparr>client_Do := c, Do := r, Execute := x\<rparr>) s = limiter_rejects E s"
  by (simp add: limiter_rejects_def split: option.splits)

lemma after_limiter_upd [simp]:
  "after_limiter (E\<lparr>client_Do := c, Do := r, Execute := x\<rparr>) s = after_limiter E s"
  by (simp add: after_limiter_def split: option.splits)

lemma breaker_open_upd [simp]:
  "breaker_open (E\<lparr>client_Do := c, Do := r, Execute := x\<rparr>) s = breaker_open E s"
  by (simp add: breaker_open_def split: option.splits)

lemma breaker_open_after_limiter [simp]:
  "breaker_open E (after_limiter E s) = breaker_open E s"
  by (simp add: breaker_open_def after_limiter_def split: option.splits)

lemma metrics_after_limiter [simp]: "metrics (after_limiter E s) = metrics s"
  by (simp add: after_limiter_def split: option.splits)

lemma cfg_after_limiter [simp]: "cfg (after_limiter E s) = cfg s"
  by (simp add: after_limiter_def split: option.splits)

lemma cfg_record_call [simp]: "cfg (record_call c s) = cfg s"
  by (simp add: record_call_def)

lemma recorded_record_call:
  "recorded c (record_call c' s) = recorded c s + (if c' = c then 1 else 0)"
  by (simp add: recorded_def record_call_def)

lemma recorded_after_limiter [simp]: "recorded c (after_limiter E s) = recorded c s"
  by (simp add: recorded_def)

lemmas demo_sender = E0_def C0_def sender_of_def limiter_rejects_def after_limiter_def
  breaker_open_def record_call_def recorded_def

subsection \<open>Admission\<close>

text \<open>
  C1. When webhook delivery is disabled, \<open>Send\<close> returns nil and changes nothing.
  Otherwise, when a limiter is configured and \<open>Allow()\<close> answers false, \<open>Send\<close> returns
  \<open>ErrRateLimitExceeded\<close>; and when the limiter admits the call (or there is none) and a
  breaker is configured whose state is \<open>Open\<close>, \<open>Send\<close> returns \<open>ErrCircuitOpen\<close>. In both
  rejections the only call on the metrics is \<open>RecordRateLimited\<close>, respectively
  \<open>RecordCircuitOpen\<close>: the numbers of \<open>RecordRequest\<close> and \<open>RecordFailure\<close> calls stay as
  they were; the world is the one before the call, and the result is the same whatever
  the HTTP client, the retryer and the breaker's \<open>Execute\<close> would do: none is called.
\<close>

theorem Send_admission:
  "(\<not> Enabled (cfg s) \<longrightarrow> Send E s requestID status message sessionID w = (None, s, w))
   \<and> (Enabled (cfg s) \<and> limiter_rejects E s \<longrightarrow>
        Send E s requestID status message sessionID w
          = (Some ErrRateLimitExceeded, record_call RecordRateLimited (after_limiter E s), w))
   \<and> (Enabled (cfg s) \<and> \<not> limiter_rejects E s \<and> breaker_open E s \<longrightarrow>
        Send E s requestID status message sessionID w
          = (Some ErrCircuitOpen, record_call RecordCircuitOpen (after_limiter E s), w))
   \<and> (Enabled (cfg s) \<and> (limiter_rejects E s \<or> breaker_open E s) \<longrightarrow>
        (case Send E s requestID status message sessionID w of
           (err, s', w') \<Rightarrow>
             w' = w \<and> recorded RecordRequest s' = recorded RecordRequest s
             \<and> recorded RecordFailure s' = recorded RecordFailure s)
        \<and> Send (E\<lparr>client_Do := c, Do := r, Execute := x\<rparr>) s requestID status message
             sessionID w
           = Send E s requestID status message sessionID w)"
  by (auto simp: Send_def recorded_record_call)

theorem Send_admission_witness:
  "\<not> Enabled (cfg (sender_of (C0\<lparr>Enabled := False\<rparr>) (Some StateOpen) (Some 0)))
   \<and> Send E0 (sender_of (C0\<lparr>Enabled := False\<rparr>) (Some StateOpen) (Some 0))
        ''req-1'' StatusTaskComplete ''done'' ''s1'' []
       = (None, sender_of (C0\<lparr>Enabled := False\<rparr>) (Some StateOpen) (Some 0), [])
   \<and> Enabled (cfg (sender_of C0 None (Some 0)))
   \<and> limiter_rejects E0 (sender_of C0 None (Some 0))
   \<and> Send E0 (sender_of C0 None (Some 0)) ''req-1'' StatusTaskComplete ''done'' ''s1'' []
       = (Some ErrRateLimitExceeded,
          (sender_of C0 None (Some 0))\<lparr>metrics := [RecordRateLimited]\<rparr>, [])
   \<and> \<not> limiter_rejects E0 (sender_of C0 (Some StateOpen) (Some 3))
   \<and> breaker_open E0 (sender_of C0 (Some StateOpen) (Some 3))
   \<and> Send E0 (sender_of C0 (Some StateOpen) (Some 3)) ''req-1'' StatusTaskComplete ''done''
        ''s1'' []
       = (Some ErrCircuitOpen,
          (sender_of C0 (Some StateOpen) (Some 2))\<lparr>metrics := [RecordCircuitOpen]\<rparr>, [])
   \<and> recorded RecordRequest
         (fst (snd (Send E0 (sender_of C0 (Some StateOpen) (Some 3)) ''req-1''
                      StatusTaskComplete ''done'' ''s1'' []))) = 0
   \<and> recorded RecordFailure
         (fst (snd (Send E0 (sender_of C0 (Some StateOpen) (Some 3)) ''req-1''
                      StatusTaskComplete ''done'' ''s1'' []))) = 0"
  using
    Send_admission [where E = E0
      and s = "sender_of (C0\<lparr>Enabled := False\<rparr>) (Some StateOpen) (Some 0)"
      and requestID = "''req-1''" and status = StatusTaskComplete and message = "''done''"
      and sessionID = "''s1''" and w = "[]"]
    Send_admission [where E = E0 and s = "sender_of C0 None (Some 0)"
      and requestID = "''req-1''" and status = StatusTaskComplete and message = "''done''"
      and sessionID = "''s1''" and w = "[]"]
    Send_admission [where E = E0 and s = "sender_of C0 (Some StateOpen) (Some 3)"
      and requestID = "''req-1''" and status = StatusTaskComplete and message = "''done''"
      and sessionID = "''s1''" and w = "[]"]
  by (simp add: demo_sender)

subsection \<open>URL validation\<close>

lemma validateURL_iff:
  "validateURL parse rawURL \<noteq> None \<longleftrightarrow>
     rawURL = []
     \<or> (case parse rawURL of
           Inl err \<Rightarrow> True
         | Inr u \<Rightarrow> (Scheme u \<noteq> ''http'' \<and> Scheme u \<noteq> ''https'') \<or> Host u = [])"
  by (simp add: validateURL_def split: sum.splits)

lemma buildPayload_upd [simp]:
  "buildPayload (E\<lparr>client_Do := c, Do := r, Execute := x\<rparr>) s status message sessionID w
     = buildPayload E s status message sessionID w"
  by (simp add: buildPayload_def buildCustomPayload_def Let_def
      split: option.splits sum.splits)

lemma sendWith_invalid:
  assumes "validateURL (url_Parse E) (WebhookURL (cfg s)) \<noteq> None"
  shows "\<exists>e. sendWithRetryAndCircuitBreaker E s requestID status message sessionID w
           = (Some e, circuitBreaker s, w)"
  using assms
  by (auto simp: sendWithRetryAndCircuitBreaker_def
      split: sum.splits prod.splits option.splits)

lemma sendWith_invalid_upd:
  assumes "validateURL (url_Parse E) (WebhookURL (cfg s)) \<noteq> None"
  shows "sendWithRetryAndCircuitBreaker (E\<lparr>client_Do := c, Do := r, Execute := x\<rparr>) s
           requestID status message sessionID w
         = sendWithRetryAndCircuitBreaker E s requestID status message sessionID w"
  using assms
  by (auto simp: sendWithRetryAndCircuitBreaker_def
      split: sum.splits prod.splits option.splits)

text \<open>
  C9 says that \<open>Send\<close> fails for every invalid URL. It does not where webhook delivery
  is disabled: the URL below is invalid (empty) and \<open>Send\<close> returns nil, not an error.
\<close>

theorem validateURL_Send_counterexample:
  "validateURL (url_Parse E0)
      (WebhookURL (cfg (sender_of (C0\<lparr>Enabled := False, WebhookURL := []\<rparr>) None None)))
     \<noteq> None
   \<and> fst (Send E0 (sender_of (C0\<lparr>Enabled := False, WebhookURL := []\<rparr>) None None)
            ''req-1'' StatusTaskComplete ''done'' ''s1'' []) = None"
  by (simp add: Send_def validateURL_def demo_sender)

text \<open>
  C9, amended. \<open>validateURL\<close> returns an error for exactly the URLs that are empty, that
  \<open>url.Parse\<close> rejects, whose scheme is neither \<open>http\<close> nor \<open>https\<close>, or whose host is
  empty. For every such URL, \<open>Send\<close> leaves the world as it was and its result is the same
  whatever the HTTP client, the retryer and the breaker's \<open>Execute\<close> would do (no request
  is issued, the retry operation is not invoked); and when webhook delivery is enabled,
  \<open>Send\<close> returns an error.
\<close>

theorem validateURL_Send:
  "(validateURL (url_Parse E) rawURL \<noteq> None \<longleftrightarrow>
      rawURL = []
      \<or> (case url_Parse E rawURL of
            Inl err \<Rightarrow> True
          | Inr u \<Rightarrow> (Scheme u \<noteq> ''http'' \<and> Scheme u \<noteq> ''https'') \<or> Host u = []))
   \<and> (validateURL (url_Parse E) (WebhookURL (cfg s)) \<noteq> None \<longrightarrow>
        (case Send E s requestID status message sessionID w of
           (err, s', w') \<Rightarrow> w' = w \<and> (Enabled (cfg s) \<longrightarrow> err \<noteq> None))
        \<and> Send (E\<lparr>client_Do := c, Do := r, Execute := x\<rparr>) s requestID status message
             sessionID w
           = Send E s requestID status message sessionID w)"
proof (intro conjI impI)
  show "validateURL (url_Parse E) rawURL \<noteq> None \<longleftrightarrow>
      rawURL = []
      \<or> (case url_Parse E rawURL of
            Inl err \<Rightarrow> True
          | Inr u \<Rightarrow> (Scheme u \<noteq> ''http'' \<and> Scheme u \<noteq> ''https'') \<or> Host u = [])"
    by (rule validateURL_iff)
next
  assume inv: "validateURL (url_Parse E) (WebhookURL (cfg s)) \<noteq> None"
  let ?s1 = "record_call RecordRequest (after_limiter E s)"
  have inv1: "validateURL (url_Parse E) (WebhookURL (cfg ?s1)) \<noteq> None"
    using inv by simp
  obtain e where e:
    "sendWithRetryAndCircuitBreaker E ?s1 requestID status message sessionID w
       = (Some e, circuitBreaker ?s1, w)"
    using sendWith_invalid [OF inv1] by blast
  show "case Send E s requestID status message sessionID w of
           (err, s', w') \<Rightarrow> w' = w \<and> (Enabled (cfg s) \<longrightarrow> err \<noteq> None)"
    by (simp add: Send_def e Let_def)
  show "Send (E\<lparr>client_Do := c, Do := r, Execute := x\<rparr>) s requestID status message
             sessionID w
           = Send E s requestID status message sessionID w"
    using sendWith_invalid_upd [OF inv1, where c = c and r = r and x = x
        and requestID = requestID and status = status and message = message
        and sessionID = sessionID and w = w]
    by (simp add: Send_def Let_def e split: option.splits)
qed

theorem validateURL_Send_witness:
  "validateURL (url_Parse E0)
      (WebhookURL (cfg (sender_of (C0\<lparr>WebhookURL := ''ftp://example.com/hook''\<rparr>)
         (Some StateClosed) (Some 3)))) \<noteq> None
   \<and> Enabled (cfg (sender_of (C0\<lparr>WebhookURL := ''ftp://example.com/hook''\<rparr>)
         (Some StateClosed) (Some 3)))
   \<and> fst (Send E0 (sender_of (C0\<lparr>WebhookURL := ''ftp://example.com/hook''\<rparr>)
              (Some StateClosed) (Some 3)) ''req-1'' StatusTaskComplete ''done'' ''s1'' [])
       = Some (Errorf ''invalid webhook URL''
                 (Some (Errorf ''URL must use http or https scheme'' None)))
   \<and> snd (snd (Send E0 (sender_of (C0\<lparr>WebhookURL := ''ftp://example.com/hook''\<rparr>)
              (Some StateClosed) (Some 3)) ''req-1'' StatusTaskComplete ''done'' ''s1'' []))
       = []"
  using validateURL_Send [where E = E0
      and s = "sender_of (C0\<lparr>WebhookURL := ''ftp://example.com/hook''\<rparr>)
                 (Some StateClosed) (Some 3)"
      and requestID = "''req-1''" and status = StatusTaskComplete and message = "''done''"
      and sessionID = "''s1''" and w = "[]"]
  by (simp add: Send_def sendWithRetryAndCircuitBreaker_def buildPayload_def
      buildCustomPayload_def validateURL_def demo_Parse_def demo_sender)

end
